theory Spec2Isabelle
  imports Main "HOL-Library.Word" "HOL-Library.Signed_Division"
begin

text \<open>
  A model of \<open>server/jetstream.go\<close> of the NATS server: the quota ledger of the JetStream
  engine, the enabling, updating and disabling of accounts with the recovery of their
  message sets from disk, the admission control for new message sets, and the request
  handler that deletes a message. The definitions follow the Go source function by
  function; the line numbers are those of the source file. What the file calls and does
  not define is a parameter of the model.
\<close>

section \<open>Data model of server/jetstream.go\<close>

text \<open>
  Go's \<open>int64\<close> is a 64-bit word: \<open>+\<close>, \<open>-\<close> and \<open>*\<close> wrap around, comparisons are
  the signed ones (\<open><s\<close>, \<open>\<le>s\<close>). Go's \<open>int\<close> is taken at its 64-bit width. An \<open>error\<close>
  is the text given to \<open>fmt.Errorf\<close>; \<open>None\<close> is the \<open>nil\<close> error.
\<close>

type_synonym int64 = "64 word"
type_synonym go_int = "64 word"
type_synonym error = string

text \<open>\<open>JetStreamConfig\<close> (lines 33-37).\<close>

record JetStreamConfig =
  cfg_MaxMemory :: int64
  cfg_MaxStore :: int64
  cfg_StoreDir :: string

text \<open>\<open>JetStreamAccountLimits\<close> (lines 40-45).\<close>

record JetStreamAccountLimits =
  MaxMemory :: int64
  MaxStore :: int64
  MaxMsgSets :: go_int
  MaxObservables :: go_int

text \<open>
  \<open>StorageType\<close> and \<open>MsgSetConfig\<close> are declared outside this file; the fields are
  the ones \<open>checkLimits\<close> reads, together with the name.
\<close>

datatype StorageType = MemoryStorage | FileStorage

record MsgSetConfig =
  ms_Name :: string
  ms_Storage :: StorageType
  ms_MaxBytes :: int64
  ms_Replicas :: go_int
  ms_MaxObservables :: go_int

text \<open>
  Pointers are addresses: an \<open>*Account\<close> is identified by a number, and so are
  \<open>*jsAccount\<close>, \<open>*MsgSet\<close> and \<open>*Observable\<close>.
\<close>

type_synonym acct = nat
type_synonym jsa_ref = nat
type_synonym mset_ref = nat
type_synonym obs_ref = nat

text \<open>\<open>jetStream\<close> (lines 147-154); \<open>accounts\<close> is \<open>map[*Account]*jsAccount\<close>.\<close>

record jetStream =
  config :: JetStreamConfig
  accounts :: "acct \<rightharpoonup> jsa_ref"
  memReserved :: int64
  storeReserved :: int64

text \<open>\<open>jsAccount\<close> (lines 184-195); \<open>msgSets\<close> is \<open>map[string]*MsgSet\<close>.\<close>

record jsAccount =
  account :: acct
  limits :: JetStreamAccountLimits
  jsa_memReserved :: int64
  memUsed :: int64
  jsa_storeReserved :: int64
  storeUsed :: int64
  storeDir :: string
  msgSets :: "string \<rightharpoonup> mset_ref"

section \<open>Quota arithmetic\<close>

text \<open>\<open>sufficientResources\<close> (lines 797-808). The argument is a pointer and may be nil.\<close>

definition sufficientResources :: "jetStream \<Rightarrow> JetStreamAccountLimits option \<Rightarrow> error option" where
  "sufficientResources js lim =
     (case lim of
        None \<Rightarrow> None
      | Some l \<Rightarrow>
          if cfg_MaxMemory (config js) <s memReserved js + MaxMemory l
          then Some ''insufficient memory resources available''
          else if cfg_MaxStore (config js) <s storeReserved js + MaxStore l
          then Some ''insufficient storage resources available''
          else None)"

text \<open>
  \<open>reserveResources\<close> (lines 812-823) and \<open>releaseResources\<close> (lines 825-836). Both
  return the nil error on every path, so the models return the updated engine only.
\<close>

definition reserveResources :: "JetStreamAccountLimits option \<Rightarrow> jetStream \<Rightarrow> jetStream" where
  "reserveResources lim js =
     (case lim of
        None \<Rightarrow> js
      | Some l \<Rightarrow>
          let js1 = (if 0 <s MaxMemory l
                     then js\<lparr>memReserved := memReserved js + MaxMemory l\<rparr> else js)
          in (if 0 <s MaxStore l
              then js1\<lparr>storeReserved := storeReserved js1 + MaxStore l\<rparr> else js1))"

definition releaseResources :: "JetStreamAccountLimits option \<Rightarrow> jetStream \<Rightarrow> jetStream" where
  "releaseResources lim js =
     (case lim of
        None \<Rightarrow> js
      | Some l \<Rightarrow>
          let js1 = (if 0 <s MaxMemory l
                     then js\<lparr>memReserved := memReserved js - MaxMemory l\<rparr> else js)
          in (if 0 <s MaxStore l
              then js1\<lparr>storeReserved := storeReserved js1 - MaxStore l\<rparr> else js1))"

text \<open>
  \<open>diffCheckedLimits\<close> (lines 606-611). The composite literal names two fields; Go
  zeroes the fields it leaves out.
\<close>

definition diffCheckedLimits :: "JetStreamAccountLimits \<Rightarrow> JetStreamAccountLimits \<Rightarrow> JetStreamAccountLimits" where
  "diffCheckedLimits a b =
     \<lparr>MaxMemory = MaxMemory b - MaxMemory a,
      MaxStore = MaxStore b - MaxStore a,
      MaxMsgSets = 0,
      MaxObservables = 0\<rparr>"

text \<open>\<open>dynamicAccountLimits\<close> (lines 787-793).\<close>

definition dynamicAccountLimits :: "jetStream \<Rightarrow> JetStreamAccountLimits" where
  "dynamicAccountLimits js =
     \<lparr>MaxMemory = cfg_MaxMemory (config js),
      MaxStore = cfg_MaxStore (config js),
      MaxMsgSets = - 1,
      MaxObservables = - 1\<rparr>"

text \<open>\<open>lookupAccount\<close> (lines 779-784): a missing key reads as the nil pointer.\<close>

definition lookupAccount :: "jetStream \<Rightarrow> acct \<Rightarrow> jsa_ref option" where
  "lookupAccount js a = accounts js a"

section \<open>Formatting\<close>

text \<open>The verb \<open>%d\<close> of \<open>fmt\<close> on a signed integer: an optional minus sign and decimal digits.\<close>

definition digit_char :: "nat \<Rightarrow> char" where
  "digit_char d = ''0123456789'' ! d"

fun dec_nat :: "nat \<Rightarrow> string" where
  "dec_nat n = (if n < 10 then [digit_char n] else dec_nat (n div 10) @ [digit_char (n mod 10)])"

declare dec_nat.simps [simp del]

definition fmt_d :: "int \<Rightarrow> string" where
  "fmt_d i = (if i < 0 then CHR ''-'' # dec_nat (nat (- i)) else dec_nat (nat i))"

section \<open>Admission control\<close>

text \<open>
  \<open>checkLimits\<close> (lines 734-763). The config is passed by pointer and written to, so
  the model returns it next to the error. \<open>len(jsa.msgSets)\<close> is the number of keys.
\<close>

definition checkLimits :: "jsAccount \<Rightarrow> MsgSetConfig \<Rightarrow> error option \<times> MsgSetConfig" where
  "checkLimits jsa cfg =
     (if 0 <s MaxMsgSets (limits jsa)
         \<and> MaxMsgSets (limits jsa) \<le>s of_nat (card (dom (msgSets jsa)))
      then (Some ''maximum number of message sets reached'', cfg)
      else if ms_Replicas cfg \<noteq> 1
      then (Some (''replicas setting of '' @ fmt_d (sint (ms_Replicas cfg)) @ '' not allowed''), cfg)
      else if 0 <s ms_MaxObservables cfg
              \<and> MaxObservables (limits jsa) <s ms_MaxObservables cfg
      then (Some ''maximum observables exceeds account limit'', cfg)
      else
        let cfg1 = cfg\<lparr>ms_MaxObservables := MaxObservables (limits jsa)\<rparr> in
        if 0 <s ms_MaxBytes cfg1
        then
          let mb = ms_MaxBytes cfg1 * ms_Replicas cfg1 in
          (case ms_Storage cfg1 of
             MemoryStorage \<Rightarrow>
               if MaxMemory (limits jsa) <s jsa_memReserved jsa + mb
               then (Some ''insufficient memory resources available'', cfg1)
               else (None, cfg1)
           | FileStorage \<Rightarrow>
               if MaxStore (limits jsa) <s jsa_storeReserved jsa + mb
               then (Some ''insufficient storage resources available'', cfg1)
               else (None, cfg1))
        else (None, cfg1))"

section \<open>Server state and the collaborators outside this file\<close>

text \<open>
  The part of \<open>Account\<close> that this file reads and writes: \<open>a.Name\<close>, whether \<open>a.srv\<close> is
  set, and the back-link \<open>a.js\<close>.
\<close>

record Account =
  Name :: string
  srv :: bool
  acc_js :: "jsa_ref option"

text \<open>A \<open>client\<close> is read for its account only; \<open>c.acc\<close> may be nil.\<close>

record client =
  acc :: "acct option"

datatype level = DebugL | NoticeL | WarnL

text \<open>
  The state of the server. \<open>srv_js\<close> is \<open>s.js\<close>; \<open>jsas\<close> is the heap of \<open>jsAccount\<close>
  objects and \<open>next_jsa\<close> the next free address; \<open>world\<close> is the state of everything
  outside this file (file system, broker, message sets, observables). Log lines are
  kept by level and format string, replies as (account, reply subject, payload).
\<close>

record 'w Server =
  srv_js :: "jetStream option"
  standAloneMode :: bool
  accts :: "acct \<Rightarrow> Account"
  jsas :: "jsa_ref \<Rightarrow> jsAccount"
  next_jsa :: jsa_ref
  world :: 'w
  logs :: "(level \<times> string) list"
  outbox :: "(acct \<times> string \<times> string) list"

text \<open>A Go call either returns or panics.\<close>

datatype 'a result = Panic | Ret 'a

text \<open>
  What recovery finds on disk under an account's store directory: for each entry
  whether \<open>meta.inf\<close> exists, whether reading it succeeds, whether \<open>meta.sum\<close> exists,
  and the result of \<open>json.Unmarshal\<close> (\<open>None\<close> on a parse error).
\<close>

typedecl ObservableConfig

record ObsDir =
  od_Name :: string
  od_meta_exists :: bool
  od_read_ok :: bool
  od_sum_exists :: bool
  od_cfg :: "ObservableConfig option"

record MsgSetDir =
  fi_Name :: string
  fi_meta_exists :: bool
  fi_read_ok :: bool
  fi_sum_exists :: bool
  fi_cfg :: "MsgSetConfig option"
  fi_obs :: "ObsDir list"

datatype stat_result = NotExist | IsDirectory | NotDirectory

text \<open>
  The operations this file calls and does not define, as parameters: the standard
  library (\<open>os\<close>, \<open>ioutil\<close>, \<open>path\<close>, \<open>sysmem\<close>), the broker (subscriptions, service
  exports and imports) and the message-set layer. \<open>x_AddMsgSet\<close> is given the
  \<open>jsAccount\<close> it works on; it answers with an error (and then no handle), or with the new
  handle and the account's registry after the insertion. \<open>x_stopMsgSets\<close> stands for
  \<open>ms.stop(false)\<close> on every handle of a registry.
\<close>

record 'w ext =
  x_TempDir :: string
  x_Memory :: int64
  x_Join :: "string \<Rightarrow> string \<Rightarrow> string"
  x_Stat :: "string \<Rightarrow> 'w \<Rightarrow> stat_result"
  x_MkdirAll :: "string \<Rightarrow> 'w \<Rightarrow> error option \<times> 'w"
  x_TempFile :: "string \<Rightarrow> 'w \<Rightarrow> bool \<times> 'w"
  x_SystemAccount :: "'w \<Rightarrow> acct option"
  x_SetDefaultSystemAccount :: "'w \<Rightarrow> 'w"
  x_sysSubscribe :: "string \<Rightarrow> 'w \<Rightarrow> error option \<times> 'w"
  x_AddServiceExport :: "acct option \<Rightarrow> string \<Rightarrow> 'w \<Rightarrow> error option \<times> 'w"
  x_globalAccountOnly :: "'w \<Rightarrow> bool"
  x_GlobalAccount :: acct
  x_AddServiceImport :: "acct \<Rightarrow> acct option \<Rightarrow> string \<Rightarrow> string \<Rightarrow> 'w \<Rightarrow> error option \<times> 'w"
  x_removeServiceImport :: "acct \<Rightarrow> string \<Rightarrow> 'w \<Rightarrow> 'w"
  x_ReadDir :: "string \<Rightarrow> 'w \<Rightarrow> MsgSetDir list"
  x_AddMsgSet :: "MsgSetConfig \<Rightarrow> jsAccount \<Rightarrow> 'w \<Rightarrow> (error + mset_ref \<times> (string \<rightharpoonup> mset_ref)) \<times> 'w"
  x_AddObservable :: "mset_ref \<Rightarrow> ObservableConfig \<Rightarrow> 'w \<Rightarrow> (error + obs_ref) \<times> 'w"
  x_readStoredState :: "obs_ref \<Rightarrow> 'w \<Rightarrow> error option \<times> 'w"
  x_EraseMsg :: "mset_ref \<Rightarrow> 64 word \<Rightarrow> 'w \<Rightarrow> bool \<times> 'w"
  x_stopMsgSets :: "(string \<rightharpoonup> mset_ref) \<Rightarrow> 'w \<Rightarrow> 'w"

definition logf :: "level \<Rightarrow> string \<Rightarrow> 'w Server \<Rightarrow> 'w Server" where
  "logf lv fmt s = s\<lparr>logs := logs s @ [(lv, fmt)]\<rparr>"

definition sendInternalAccountMsg :: "acct \<Rightarrow> string \<Rightarrow> string \<Rightarrow> 'w Server \<Rightarrow> 'w Server" where
  "sendInternalAccountMsg a reply payload s = s\<lparr>outbox := outbox s @ [(a, reply, payload)]\<rparr>"

section \<open>Constants\<close>

definition OK :: string where
  "OK = ''+OK''"

definition ErrPrefix :: string where
  "ErrPrefix = ''-ERR''"

text \<open>The two fixed replies carry their message in single quotes (character 0x27).\<close>

definition JetStreamNotEnabled :: string where
  "JetStreamNotEnabled = ''-ERR '' @ [CHR 0x27] @ ''jetstream not enabled for account'' @ [CHR 0x27]"

definition JetStreamBadRequest :: string where
  "JetStreamBadRequest = ''-ERR '' @ [CHR 0x27] @ ''bad request'' @ [CHR 0x27]"

definition allJsExports :: "string list" where
  "allJsExports =
     [''$JS.*.ENABLED'', ''$JS.*.INFO'', ''$JS.*.MSGSET.CREATE'', ''$JS.*.MSGSETS'',
      ''$JS.*.MSGSET.INFO'', ''$JS.*.MSGSET.DELETE'', ''$JS.*.MSGSET.PURGE'',
      ''$JS.*.MSGSET.MSG.DELETE'', ''$JS.*.OBSERVABLE.CREATE'', ''$JS.*.OBSERVABLES'',
      ''$JS.*.OBSERVABLE.INFO'', ''$JS.*.OBSERVABLE.DELETE'']"

text \<open>The token separator \<open>tsep\<close> of the subject space, declared outside this file.\<close>

definition tsep :: string where
  "tsep = ''.''"

definition JetStreamStoreDir :: string where
  "JetStreamStoreDir = ''jetstream''"

definition JetStreamMaxStoreDefault :: int64 where
  "JetStreamMaxStoreDefault = 1024 * 1024 * 1024 * 1024"

definition JetStreamMaxMemDefault :: int64 where
  "JetStreamMaxMemDefault = 1024 * 1024 * 256"

section \<open>Standard library\<close>

text \<open>
  \<open>strings.Replace(s, old, new, -1)\<close> for a non-empty \<open>old\<close>: every non-overlapping
  occurrence, left to right. The counter is the number of characters of a matched
  occurrence still to be dropped.
\<close>

fun replace_from :: "string \<Rightarrow> string \<Rightarrow> nat \<Rightarrow> string \<Rightarrow> string" where
  "replace_from old new k [] = []"
| "replace_from old new (Suc k) (c # cs) = replace_from old new k cs"
| "replace_from old new 0 (c # cs) =
     (if take (length old) (c # cs) = old
      then new @ replace_from old new (length old - 1) cs
      else c # replace_from old new 0 cs)"

definition strings_Replace :: "string \<Rightarrow> string \<Rightarrow> string \<Rightarrow> string" where
  "strings_Replace s old new = replace_from old new 0 s"

text \<open>
  \<open>strings.Split(s, sep)\<close> for a separator of one character: the pieces between the
  separators, so one piece more than there are separators (the empty string gives one
  empty piece).
\<close>

fun strings_Split :: "string \<Rightarrow> char \<Rightarrow> string list" where
  "strings_Split [] sep = [[]]"
| "strings_Split (c # cs) sep =
     (if c = sep then [] # strings_Split cs sep
      else (case strings_Split cs sep of
              [] \<Rightarrow> [[c]]
            | w # ws \<Rightarrow> (c # w) # ws))"

text \<open>
  \<open>strconv.Atoi\<close> at 64 bits, which is \<open>ParseInt(s, 10, 0)\<close>: an optional sign, then
  \<open>ParseUint\<close> on the rest. \<open>ParseUint\<close> reads the characters from the left; a character
  that is not a decimal digit ends it with 0 and a syntax error, and a value that no
  longer fits 64 bits ends it with the largest value and a range error, whichever comes
  first. Next to a range error \<open>ParseInt\<close> gives the nearest bound of \<open>int64\<close>. (The
  shortcut \<open>Atoi\<close> takes for strings of fewer than 19 characters gives the same values.)
\<close>

datatype NumError = ErrSyntax | ErrRange

definition is_digit :: "char \<Rightarrow> bool" where
  "is_digit c = (c \<in> set ''0123456789'')"

definition maxUint64 :: nat where
  "maxUint64 = 2 ^ 64 - 1"

fun scan_digits :: "nat \<Rightarrow> string \<Rightarrow> nat \<times> NumError option" where
  "scan_digits n [] = (n, None)"
| "scan_digits n (c # cs) =
     (if \<not> is_digit c then (0, Some ErrSyntax)
      else if maxUint64 div 10 + 1 \<le> n then (maxUint64, Some ErrRange)
      else if maxUint64 < n * 10 + (of_char c - 48) then (maxUint64, Some ErrRange)
      else scan_digits (n * 10 + (of_char c - 48)) cs)"

definition ParseUint :: "string \<Rightarrow> nat \<times> NumError option" where
  "ParseUint s = (if s = [] then (0, Some ErrSyntax) else scan_digits 0 s)"

definition unsigned_part :: "string \<Rightarrow> string" where
  "unsigned_part s =
     (case s of [] \<Rightarrow> [] | c # r \<Rightarrow> if c = CHR ''-'' \<or> c = CHR ''+'' then r else s)"

definition Atoi :: "string \<Rightarrow> go_int \<times> NumError option" where
  "Atoi s =
     (if s = [] then (0, Some ErrSyntax)
      else
        let neg = (case s of [] \<Rightarrow> False | c # r \<Rightarrow> c = CHR ''-'') in
        (case ParseUint (unsigned_part s) of
           (un, Some ErrSyntax) \<Rightarrow> (0, Some ErrSyntax)
         | (un, err) \<Rightarrow>
             if \<not> neg \<and> 2 ^ 63 \<le> un then (2 ^ 63 - 1, Some ErrRange)
             else if neg \<and> 2 ^ 63 < un then (- (2 ^ 63), Some ErrRange)
             else (if neg then - of_nat un else of_nat un, None)))"

text \<open>The strings that denote an integer: an optional sign and at least one decimal digit.\<close>

definition integer_syntax :: "string \<Rightarrow> bool" where
  "integer_syntax s = (unsigned_part s \<noteq> [] \<and> list_all is_digit (unsigned_part s))"

text \<open>Go's \<open>/\<close> on \<open>int64\<close> truncates towards zero.\<close>

definition int64_quo :: "int64 \<Rightarrow> int64 \<Rightarrow> int64" where
  "int64_quo a b = word_of_int (sint a sdiv sint b)"

section \<open>Engine configuration\<close>

text \<open>\<open>dynJetStreamConfig\<close> (lines 1160-1175).\<close>

definition dynJetStreamConfig :: "'w ext \<Rightarrow> string \<Rightarrow> JetStreamConfig" where
  "dynJetStreamConfig ext dir =
     \<lparr>cfg_MaxMemory =
        (if 0 <s x_Memory ext then int64_quo (x_Memory ext) 4 * 3 else JetStreamMaxMemDefault),
      cfg_MaxStore = JetStreamMaxStoreDefault,
      cfg_StoreDir =
        (if dir \<noteq> [] then x_Join ext dir JetStreamStoreDir
         else x_Join ext (x_TempDir ext) JetStreamStoreDir)\<rparr>"

text \<open>
  The configuration that \<open>Server.EnableJetStream\<close> installs (lines 211-223): the
  dynamic one when the argument is nil or has a non-positive bound, then the default
  directory when none is set.
\<close>

definition effectiveConfig :: "'w ext \<Rightarrow> JetStreamConfig option \<Rightarrow> JetStreamConfig" where
  "effectiveConfig ext cfgp =
     (let config1 =
            (case cfgp of
               None \<Rightarrow> dynJetStreamConfig ext []
             | Some c \<Rightarrow>
                 if cfg_MaxMemory c \<le>s 0 \<or> cfg_MaxStore c \<le>s 0
                 then dynJetStreamConfig ext (cfg_StoreDir c)
                 else c)
      in if cfg_StoreDir config1 = []
         then config1\<lparr>cfg_StoreDir := x_Join ext (x_TempDir ext) JetStreamStoreDir\<rparr>
         else config1)"

section \<open>Account operations\<close>

text \<open>The import loop of \<open>Account.EnableJetStream\<close> (lines 433-440).\<close>

fun addServiceImports ::
  "'w ext \<Rightarrow> acct \<Rightarrow> acct option \<Rightarrow> string \<Rightarrow> string list \<Rightarrow> 'w \<Rightarrow> error option \<times> 'w" where
  "addServiceImports ext a sys nm [] w = (None, w)"
| "addServiceImports ext a sys nm (export # rest) w =
     (let importTo = strings_Replace export ''*'' nm;
          importFrom = strings_Replace export ''.*.'' tsep
      in case x_AddServiceImport ext a sys importFrom importTo w of
           (Some err, w1) \<Rightarrow>
             (Some (''Error setting up jetstream service imports for account: '' @ err), w1)
         | (None, w1) \<Rightarrow> addServiceImports ext a sys nm rest w1)"

text \<open>The inner loop of recovery, over the observable directories of one set (lines 487-516).\<close>

fun recoverObservables :: "'w ext \<Rightarrow> mset_ref \<Rightarrow> ObsDir list \<Rightarrow> 'w Server \<Rightarrow> 'w Server" where
  "recoverObservables ext mset [] s = s"
| "recoverObservables ext mset (ofi # ofis) s =
     (if \<not> od_meta_exists ofi
      then recoverObservables ext mset ofis (logf WarnL ''    Missing Observable Metafile %q'' s)
      else if \<not> od_read_ok ofi
      then recoverObservables ext mset ofis
             (logf WarnL ''    Error reading observable metafile %q: %v'' s)
      else if \<not> od_sum_exists ofi
      then recoverObservables ext mset ofis
             (logf WarnL ''    Missing Observable checksum for %q'' s)
      else
        (case od_cfg ofi of
           None \<Rightarrow>
             recoverObservables ext mset ofis
               (logf WarnL ''    Error unmarshalling Observable metafile: %v'' s)
         | Some cfg \<Rightarrow>
             (case x_AddObservable ext mset cfg (world s) of
                (Inl err, w1) \<Rightarrow>
                  recoverObservables ext mset ofis
                    (logf WarnL ''    Error adding Observable: %v'' (s\<lparr>world := w1\<rparr>))
              | (Inr obs, w1) \<Rightarrow>
                  (case x_readStoredState ext obs w1 of
                     (Some err, w2) \<Rightarrow>
                       recoverObservables ext mset ofis
                         (logf WarnL ''    Error restoring Observable state: %v'' (s\<lparr>world := w2\<rparr>))
                   | (None, w2) \<Rightarrow> recoverObservables ext mset ofis (s\<lparr>world := w2\<rparr>)))))"

text \<open>
  The pointer that \<open>AddMsgSet\<close> returns: nil next to an error. \<open>regs_of\<close> is the registry of
  the account after the call.
\<close>

definition handle_of :: "error + mset_ref \<times> (string \<rightharpoonup> mset_ref) \<Rightarrow> mset_ref option" where
  "handle_of res = (case res of Inl err \<Rightarrow> None | Inr (m, regs) \<Rightarrow> Some m)"

definition regs_of ::
  "error + mset_ref \<times> (string \<rightharpoonup> mset_ref) \<Rightarrow> (string \<rightharpoonup> mset_ref) \<Rightarrow> (string \<rightharpoonup> mset_ref)" where
  "regs_of res old = (case res of Inl err \<Rightarrow> old | Inr (m, regs) \<Rightarrow> regs)"

text \<open>
  Modelled from the spec: \<open>MsgSet.Stats\<close> is defined outside this file. The spec lists
  \<open>Stats()\<close> on a message-set handle as the counters of the store the set owns; a nil
  handle owns no store, so the call on nil is a nil-pointer dereference. Of the call the
  model keeps whether it panics: the counters it returns only go into a log line.
\<close>

definition MsgSet_Stats :: "mset_ref option \<Rightarrow> unit result" where
  "MsgSet_Stats mset = (case mset of None \<Rightarrow> Panic | Some m \<Rightarrow> Ret ())"

text \<open>
  The outer loop of recovery, over the entries of the account's store directory
  (lines 451-517); \<open>r\<close> is the address of the account's \<open>jsAccount\<close>. After \<open>AddMsgSet\<close>
  the error branch (lines 474-476) logs and falls through to \<open>mset.Stats()\<close> (line 478).
\<close>

fun recoverMsgSets :: "'w ext \<Rightarrow> jsa_ref \<Rightarrow> MsgSetDir list \<Rightarrow> 'w Server \<Rightarrow> 'w Server result" where
  "recoverMsgSets ext r [] s = Ret s"
| "recoverMsgSets ext r (fi # fis) s =
     (if \<not> fi_meta_exists fi
      then recoverMsgSets ext r fis (logf WarnL ''  Missing MsgSet metafile for %q'' s)
      else if \<not> fi_read_ok fi
      then recoverMsgSets ext r fis (logf WarnL ''  Error reading metafile %q: %v'' s)
      else if \<not> fi_sum_exists fi
      then recoverMsgSets ext r fis (logf WarnL ''  Missing MsgSet checksum for %q'' s)
      else
        (case fi_cfg fi of
           None \<Rightarrow>
             recoverMsgSets ext r fis (logf WarnL ''  Error unmarshalling MsgSet metafile: %v'' s)
         | Some cfg \<Rightarrow>
             (case x_AddMsgSet ext cfg (jsas s r) (world s) of
                (res, w1) \<Rightarrow>
                  let s1 = s\<lparr>jsas := (jsas s)(r := (jsas s r)\<lparr>msgSets := regs_of res (msgSets (jsas s r))\<rparr>),
                             world := w1\<rparr>;
                      s2 = (case res of
                              Inl err \<Rightarrow> logf WarnL ''  Error recreating MsgSet: %v'' s1
                            | Inr ok \<Rightarrow> s1)
                  in (case (MsgSet_Stats (handle_of res), handle_of res) of
                        (Ret stats, Some mset) \<Rightarrow>
                          let s3 = logf NoticeL ''  Restored %d messages for MsgSet %q'' s2;
                              s4 = (if 0 < length (fi_obs fi)
                                    then logf NoticeL ''  Recovering %d Observables for MsgSet - %q'' s3
                                    else s3)
                          in recoverMsgSets ext r fis (recoverObservables ext mset (fi_obs fi) s4)
                      | _ \<Rightarrow> Panic))))"

text \<open>
  \<open>Account.EnableJetStream\<close> (lines 393-522). The new \<open>jsAccount\<close> is allocated at the next
  free address.
\<close>

definition Account_EnableJetStream ::
  "'w ext \<Rightarrow> acct \<Rightarrow> JetStreamAccountLimits option \<Rightarrow> 'w Server \<Rightarrow> (error option \<times> 'w Server) result" where
  "Account_EnableJetStream ext a lim s =
     (if \<not> srv (accts s a) then Ret (Some ''jetstream account not registered'', s)
      else
        (case srv_js s of
           None \<Rightarrow> Ret (Some ''jetstream not enabled'', s)
         | Some js \<Rightarrow>
             let l = (case lim of None \<Rightarrow> dynamicAccountLimits js | Some l0 \<Rightarrow> l0) in
             (case sufficientResources js (Some l) of
                Some err \<Rightarrow> Ret (Some err, s)
              | None \<Rightarrow>
                  if accounts js a \<noteq> None
                  then Ret (Some ''jetstream already enabled for account'', s)
                  else
                    let r = next_jsa s;
                        jsa = \<lparr>account = a, limits = l, jsa_memReserved = 0, memUsed = 0,
                               jsa_storeReserved = 0, storeUsed = 0,
                               storeDir = x_Join ext (cfg_StoreDir (config js)) (Name (accts s a)),
                               msgSets = Map.empty\<rparr>;
                        js1 = reserveResources (Some l) (js\<lparr>accounts := (accounts js)(a \<mapsto> r)\<rparr>);
                        s1 = s\<lparr>srv_js := Some js1,
                               jsas := (jsas s)(r := jsa),
                               next_jsa := Suc r,
                               accts := (accts s)(a := (accts s a)\<lparr>acc_js := Some r\<rparr>)\<rparr>
                    in (case addServiceImports ext a (x_SystemAccount ext (world s1))
                               (Name (accts s a)) allJsExports (world s1) of
                          (Some err, w1) \<Rightarrow> Ret (Some err, s1\<lparr>world := w1\<rparr>)
                        | (None, w1) \<Rightarrow>
                            let s2 = logf DebugL ''  Max Storage:     %s''
                                       (logf DebugL ''  Max Memory:      %s''
                                         (logf DebugL ''Enabled JetStream for account %q''
                                           (s1\<lparr>world := w1\<rparr>)));
                                fis = x_ReadDir ext (storeDir jsa) (world s2);
                                s3 = (if 0 < length fis
                                      then logf NoticeL ''  Recovering JetStream state for account %q'' s2
                                      else s2)
                            in (case recoverMsgSets ext r fis s3 of
                                  Panic \<Rightarrow> Panic
                                | Ret s4 \<Rightarrow>
                                    Ret (None, logf NoticeL ''JetStream state for account %q recovered'' s4))))))"

text \<open>\<open>Account.UpdateJetStreamLimits\<close> (lines 559-604).\<close>

definition Account_UpdateJetStreamLimits ::
  "acct \<Rightarrow> JetStreamAccountLimits option \<Rightarrow> 'w Server \<Rightarrow> error option \<times> 'w Server" where
  "Account_UpdateJetStreamLimits a lim s =
     (if \<not> srv (accts s a) then (Some ''jetstream account not registered'', s)
      else
        (case srv_js s of
           None \<Rightarrow> (Some ''jetstream not enabled'', s)
         | Some js \<Rightarrow>
             (case lookupAccount js a of
                None \<Rightarrow> (Some ''jetstream not enabled for account'', s)
              | Some r \<Rightarrow>
                  let l = (case lim of None \<Rightarrow> dynamicAccountLimits js | Some l0 \<Rightarrow> l0);
                      dl = diffCheckedLimits (limits (jsas s r)) l;
                      jsaLimits = limits (jsas s r)
                  in (case sufficientResources js (Some dl) of
                        Some err \<Rightarrow> (Some err, s)
                      | None \<Rightarrow>
                          let js1 = reserveResources (Some l) (releaseResources (Some jsaLimits) js)
                          in (None, s\<lparr>srv_js := Some js1,
                                      jsas := (jsas s)(r := (jsas s r)\<lparr>limits := l\<rparr>)\<rparr>)))))"

text \<open>
  \<open>jetStream.disableJetStream\<close> (lines 657-670), on the engine \<open>js\<close> of the server; the
  argument is a pointer and may be nil. \<open>jsa.delete()\<close> (lines 766-776) stops every
  message set of the account.
\<close>

definition disableJetStream ::
  "'w ext \<Rightarrow> jetStream \<Rightarrow> jsa_ref option \<Rightarrow> 'w Server \<Rightarrow> error option \<times> 'w Server" where
  "disableJetStream ext js jsa s =
     (case jsa of
        None \<Rightarrow> (Some ''jetstream not enabled for account'', s)
      | Some r \<Rightarrow>
          let js1 = releaseResources (Some (limits (jsas s r)))
                      (js\<lparr>accounts := (accounts js)(account (jsas s r) := None)\<rparr>)
          in (None, s\<lparr>srv_js := Some js1,
                      world := x_stopMsgSets ext (msgSets (jsas s r)) (world s)\<rparr>))"

text \<open>The loop that removes the service imports (lines 648-651).\<close>

fun removeServiceImports :: "'w ext \<Rightarrow> acct \<Rightarrow> string list \<Rightarrow> 'w \<Rightarrow> 'w" where
  "removeServiceImports ext a [] w = w"
| "removeServiceImports ext a (export # rest) w =
     removeServiceImports ext a rest
       (x_removeServiceImport ext a (strings_Replace export ''.*.'' tsep) w)"

text \<open>\<open>Account.DisableJetStream\<close> (lines 632-654); \<open>a.js\<close> is cleared before any check.\<close>

definition Account_DisableJetStream :: "'w ext \<Rightarrow> acct \<Rightarrow> 'w Server \<Rightarrow> error option \<times> 'w Server" where
  "Account_DisableJetStream ext a s =
     (let s0 = s\<lparr>accts := (accts s)(a := (accts s a)\<lparr>acc_js := None\<rparr>)\<rparr> in
      if \<not> srv (accts s a) then (Some ''jetstream account not registered'', s0)
      else
        (case srv_js s0 of
           None \<Rightarrow> (Some ''jetstream not enabled'', s0)
         | Some js \<Rightarrow>
             disableJetStream ext js (lookupAccount js a)
               (s0\<lparr>world := removeServiceImports ext a allJsExports (world s0)\<rparr>)))"

section \<open>Engine enablement\<close>

text \<open>The check of the storage directory (lines 228-242).\<close>

definition checkStoreDir :: "'w ext \<Rightarrow> string \<Rightarrow> 'w \<Rightarrow> error option \<times> 'w" where
  "checkStoreDir ext dir w =
     (case x_Stat ext dir w of
        NotExist \<Rightarrow>
          (case x_MkdirAll ext dir w of
             (Some err, w1) \<Rightarrow> (Some (''could not create storage directory - '' @ err), w1)
           | (None, w1) \<Rightarrow> (None, w1))
      | NotDirectory \<Rightarrow> (Some ''storage directory is not a directory'', w)
      | IsDirectory \<Rightarrow>
          (case x_TempFile ext dir w of
             (False, w1) \<Rightarrow> (Some ''storage directory is not writable'', w1)
           | (True, w1) \<Rightarrow> (None, w1)))"

text \<open>
  The twelve internal subscriptions (lines 251-286), one per export subject and in the
  order of \<open>allJsExports\<close>; the first failure ends the call.
\<close>

fun sysSubscribeAll :: "'w ext \<Rightarrow> string list \<Rightarrow> 'w \<Rightarrow> error option \<times> 'w" where
  "sysSubscribeAll ext [] w = (None, w)"
| "sysSubscribeAll ext (subj # rest) w =
     (case x_sysSubscribe ext subj w of
        (Some err, w1) \<Rightarrow>
          (Some (''Error setting up internal jetstream subscriptions: '' @ err), w1)
      | (None, w1) \<Rightarrow> sysSubscribeAll ext rest w1)"

text \<open>The export loop (lines 297-302).\<close>

fun addServiceExports ::
  "'w ext \<Rightarrow> acct option \<Rightarrow> string list \<Rightarrow> 'w Server \<Rightarrow> error option \<times> 'w Server" where
  "addServiceExports ext sacc [] s = (None, s)"
| "addServiceExports ext sacc (export # rest) s =
     (let s1 = logf DebugL ''     %s'' s in
      case x_AddServiceExport ext sacc export (world s1) of
        (Some err, w1) \<Rightarrow>
          (Some (''Error setting up jetstream service exports: '' @ err), s1\<lparr>world := w1\<rparr>)
      | (None, w1) \<Rightarrow> addServiceExports ext sacc rest (s1\<lparr>world := w1\<rparr>))"

text \<open>
  \<open>Server.EnableJetStream\<close> (lines 200-313). The engine is installed in \<open>s.js\<close> before the
  storage directory is checked, so it stays installed when a later step fails.
\<close>

definition Server_EnableJetStream ::
  "'w ext \<Rightarrow> JetStreamConfig option \<Rightarrow> 'w Server \<Rightarrow> (error option \<times> 'w Server) result" where
  "Server_EnableJetStream ext cfgp s =
     (if \<not> standAloneMode s then Ret (Some ''jetstream restricted to single server mode'', s)
      else if srv_js s \<noteq> None then Ret (Some ''jetstream already enabled'', s)
      else
        let s1 = logf NoticeL ''Starting JetStream'' s;
            dyn = (case cfgp of
                     None \<Rightarrow> True
                   | Some c \<Rightarrow> cfg_MaxMemory c \<le>s 0 \<or> cfg_MaxStore c \<le>s 0);
            s2 = (if dyn
                  then logf DebugL
                         ''JetStream creating dynamic configuration - 75%% of system memory, %s disk'' s1
                  else s1);
            cfg = effectiveConfig ext cfgp;
            s3 = s2\<lparr>srv_js := Some \<lparr>config = cfg, accounts = Map.empty,
                                     memReserved = 0, storeReserved = 0\<rparr>\<rparr>
        in (case checkStoreDir ext (cfg_StoreDir cfg) (world s3) of
              (Some err, w1) \<Rightarrow> Ret (Some err, s3\<lparr>world := w1\<rparr>)
            | (None, w1) \<Rightarrow>
                let w2 = (if x_SystemAccount ext w1 = None
                          then x_SetDefaultSystemAccount ext w1 else w1)
                in (case sysSubscribeAll ext allJsExports w2 of
                      (Some err, w3) \<Rightarrow> Ret (Some err, s3\<lparr>world := w3\<rparr>)
                    | (None, w3) \<Rightarrow>
                        let s4 = logf DebugL ''  Exports:''
                                   (logf NoticeL ''  Store Directory: %q''
                                     (logf NoticeL ''  Max Storage:     %s''
                                       (logf NoticeL ''  Max Memory:      %s''
                                         (logf NoticeL ''----------- JETSTREAM (Beta) -----------''
                                           (s3\<lparr>world := w3\<rparr>)))))
                        in (case addServiceExports ext (x_SystemAccount ext w3) allJsExports s4 of
                              (Some err, s5) \<Rightarrow> Ret (Some err, s5)
                            | (None, s5) \<Rightarrow>
                                let s6 = logf NoticeL ''----------------------------------------'' s5
                                in if x_globalAccountOnly ext (world s6)
                                   then
                                     (case Account_EnableJetStream ext (x_GlobalAccount ext) None s6 of
                                        Panic \<Rightarrow> Panic
                                      | Ret (Some err, s7) \<Rightarrow>
                                          Ret (Some ''Error enabling jetstream on the global account'', s7)
                                      | Ret (None, s7) \<Rightarrow> Ret (None, s7))
                                   else Ret (None, s6)))))"

section \<open>Request handlers\<close>

text \<open>\<open>Account.JetStreamEnabled\<close> (lines 694-702), on a pointer that may be nil.\<close>

definition Account_JetStreamEnabled :: "'w Server \<Rightarrow> acct option \<Rightarrow> bool" where
  "Account_JetStreamEnabled s ap =
     (case ap of None \<Rightarrow> False | Some a \<Rightarrow> acc_js (accts s a) \<noteq> None)"

text \<open>\<open>Account.LookupMsgSet\<close> (lines 541-556).\<close>

definition Account_LookupMsgSet :: "'w Server \<Rightarrow> acct \<Rightarrow> string \<Rightarrow> error + mset_ref" where
  "Account_LookupMsgSet s a nm =
     (case acc_js (accts s a) of
        None \<Rightarrow> Inl ''jetstream not enabled''
      | Some r \<Rightarrow>
          (case msgSets (jsas s r) nm of
             None \<Rightarrow> Inl ''msgset not found''
           | Some mset \<Rightarrow> Inr mset))"

text \<open>
  \<open>Server.jsMsgDeleteRequest\<close> (lines 967-993). The subscription and the subject are
  not read; \<open>c\<close> may be nil. \<open>uint64(seq)\<close> keeps the 64 bits of \<open>seq\<close>.
\<close>

definition jsMsgDeleteRequest ::
  "'w ext \<Rightarrow> client option \<Rightarrow> string \<Rightarrow> string \<Rightarrow> 'w Server \<Rightarrow> 'w Server" where
  "jsMsgDeleteRequest ext c reply msg s =
     (case c of
        None \<Rightarrow> s
      | Some cl \<Rightarrow>
          (case acc cl of
             None \<Rightarrow> s
           | Some a \<Rightarrow>
               if \<not> Account_JetStreamEnabled s (Some a)
               then sendInternalAccountMsg a reply JetStreamNotEnabled s
               else
                 let args = strings_Split msg CHR '' '' in
                 if length args \<noteq> 2
                 then sendInternalAccountMsg a reply JetStreamBadRequest s
                 else
                   let nm = args ! 0;
                       seq = fst (Atoi (args ! 1))
                   in (case Account_LookupMsgSet s a nm of
                         Inl err \<Rightarrow> sendInternalAccountMsg a reply (ErrPrefix @ '' '' @ err) s
                       | Inr mset \<Rightarrow>
                           (case x_EraseMsg ext mset seq (world s) of
                              (erased, w1) \<Rightarrow>
                                let response =
                                      (if \<not> erased
                                       then ErrPrefix @ '' sequence ['' @ fmt_d (sint seq) @ ''] not found''
                                       else OK)
                                in sendInternalAccountMsg a reply response (s\<lparr>world := w1\<rparr>)))))"

section \<open>Sequences of account operations and the ledger\<close>

text \<open>
  The three account operations that touch the ledger. A call that returns an error has
  returned all the same, so the sequence goes on from the state it left; a panic ends it.
\<close>

datatype op =
    Enable acct "JetStreamAccountLimits option"
  | UpdateLimits acct "JetStreamAccountLimits option"
  | Disable acct

fun apply_op :: "'w ext \<Rightarrow> op \<Rightarrow> 'w Server \<Rightarrow> 'w Server result" where
  "apply_op ext (Enable a lim) s =
     (case Account_EnableJetStream ext a lim s of Panic \<Rightarrow> Panic | Ret (e, s') \<Rightarrow> Ret s')"
| "apply_op ext (UpdateLimits a lim) s = Ret (snd (Account_UpdateJetStreamLimits a lim s))"
| "apply_op ext (Disable a) s = Ret (snd (Account_DisableJetStream ext a s))"

fun run_ops :: "'w ext \<Rightarrow> op list \<Rightarrow> 'w Server \<Rightarrow> 'w Server result" where
  "run_ops ext [] s = Ret s"
| "run_ops ext (x # xs) s =
     (case apply_op ext x s of Panic \<Rightarrow> Panic | Ret s' \<Rightarrow> run_ops ext xs s')"

text \<open>A property of the state a call leaves; after a panic there is no state to speak of.\<close>

definition holds_after :: "('s \<Rightarrow> bool) \<Rightarrow> 's result \<Rightarrow> bool" where
  "holds_after P res = (case res of Panic \<Rightarrow> True | Ret s \<Rightarrow> P s)"

text \<open>The engine as \<open>Server.EnableJetStream\<close> creates it: no account, nothing reserved.\<close>

definition engine_new :: "'w Server \<Rightarrow> bool" where
  "engine_new s =
     (case srv_js s of
        None \<Rightarrow> False
      | Some js \<Rightarrow> accounts js = Map.empty \<and> memReserved js = 0 \<and> storeReserved js = 0)"

text \<open>The limits of an enabled account, read through the registry of the engine.\<close>

definition limits_of :: "'w Server \<Rightarrow> jetStream \<Rightarrow> acct \<Rightarrow> JetStreamAccountLimits" where
  "limits_of s js a =
     (case accounts js a of
        None \<Rightarrow> \<lparr>MaxMemory = 0, MaxStore = 0, MaxMsgSets = 0, MaxObservables = 0\<rparr>
      | Some r \<Rightarrow> limits (jsas s r))"

text \<open>
  The ledger invariant in the spec's words: each counter is the sum of the account
  limits, over the enabled accounts.
\<close>

definition ledger_sums_limits :: "'w Server \<Rightarrow> bool" where
  "ledger_sums_limits s =
     (case srv_js s of
        None \<Rightarrow> True
      | Some js \<Rightarrow>
          memReserved js = (\<Sum>a \<in> dom (accounts js). MaxMemory (limits_of s js a))
          \<and> storeReserved js = (\<Sum>a \<in> dom (accounts js). MaxStore (limits_of s js a)))"

text \<open>The same with every limit replaced by its positive part.\<close>

definition positive_part :: "int64 \<Rightarrow> int64" where
  "positive_part x = (if 0 <s x then x else 0)"

definition ledger_sums_positive :: "'w Server \<Rightarrow> bool" where
  "ledger_sums_positive s =
     (case srv_js s of
        None \<Rightarrow> True
      | Some js \<Rightarrow>
          memReserved js = (\<Sum>a \<in> dom (accounts js). positive_part (MaxMemory (limits_of s js a)))
          \<and> storeReserved js = (\<Sum>a \<in> dom (accounts js). positive_part (MaxStore (limits_of s js a))))"

text \<open>
  The registry is well formed: finitely many accounts, each entry pointing at an
  allocated \<open>jsAccount\<close> that names the account it is registered under.
\<close>

definition registry_wf :: "'w Server \<Rightarrow> bool" where
  "registry_wf s =
     (case srv_js s of
        None \<Rightarrow> True
      | Some js \<Rightarrow>
          finite (dom (accounts js))
          \<and> (\<forall>a r. accounts js a = Some r \<longrightarrow> r < next_jsa s \<and> account (jsas s r) = a))"

text \<open>The invariant that the account operations keep.\<close>

definition ledger_inv :: "'w Server \<Rightarrow> bool" where
  "ledger_inv s = (registry_wf s \<and> ledger_sums_positive s)"

section \<open>The update of limits in the spec's words\<close>

text \<open>The componentwise difference \<open>new - old\<close>, in all four fields.\<close>

definition diffLimits_spec :: "JetStreamAccountLimits \<Rightarrow> JetStreamAccountLimits \<Rightarrow> JetStreamAccountLimits" where
  "diffLimits_spec old new =
     \<lparr>MaxMemory = MaxMemory new - MaxMemory old,
      MaxStore = MaxStore new - MaxStore old,
      MaxMsgSets = MaxMsgSets new - MaxMsgSets old,
      MaxObservables = MaxObservables new - MaxObservables old\<rparr>"

text \<open>
  Compute the difference, check that it is sufficient, and only then release the old
  limits and reserve the new ones; on failure the engine is left as it was.
\<close>

definition updateLimits_spec ::
  "jetStream \<Rightarrow> JetStreamAccountLimits \<Rightarrow> JetStreamAccountLimits \<Rightarrow> error + jetStream" where
  "updateLimits_spec js old new =
     (case sufficientResources js (Some (diffLimits_spec old new)) of
        Some err \<Rightarrow> Inl err
      | None \<Rightarrow> Inr (reserveResources (Some new) (releaseResources (Some old) js)))"

section \<open>An environment for the examples\<close>

text \<open>
  Modelled from the spec: \<open>Account.AddMsgSet\<close> is defined outside this file. By the spec
  it runs the admission control of \<open>checkLimits\<close> and, when the set is admitted,
  registers it under its name. The examples use it as the collaborator \<open>x_AddMsgSet\<close>.
\<close>

definition admitMsgSet ::
  "MsgSetConfig \<Rightarrow> jsAccount \<Rightarrow> 'w \<Rightarrow> (error + mset_ref \<times> (string \<rightharpoonup> mset_ref)) \<times> 'w" where
  "admitMsgSet cfg jsa w =
     (case checkLimits jsa cfg of
        (Some err, cfg1) \<Rightarrow> (Inl err, w)
      | (None, cfg1) \<Rightarrow>
          (let m = card (dom (msgSets jsa))
           in (Inr (m, (msgSets jsa)(ms_Name cfg \<mapsto> m)), w)))"

text \<open>
  A machine with 8 GiB of memory on which every collaborator succeeds; the store
  directory is empty and no message is ever found for erasure.
\<close>

definition quietExt :: "unit ext" where
  "quietExt =
     \<lparr>x_TempDir = ''/tmp'',
      x_Memory = 8589934592,
      x_Join = (\<lambda>a b. a @ ''/'' @ b),
      x_Stat = (\<lambda>dir w. IsDirectory),
      x_MkdirAll = (\<lambda>dir w. (None, w)),
      x_TempFile = (\<lambda>dir w. (True, w)),
      x_SystemAccount = (\<lambda>w. Some 0),
      x_SetDefaultSystemAccount = (\<lambda>w. w),
      x_sysSubscribe = (\<lambda>subj w. (None, w)),
      x_AddServiceExport = (\<lambda>sacc subj w. (None, w)),
      x_globalAccountOnly = (\<lambda>w. False),
      x_GlobalAccount = 1,
      x_AddServiceImport = (\<lambda>a sys from to w. (None, w)),
      x_removeServiceImport = (\<lambda>a from w. w),
      x_ReadDir = (\<lambda>dir w. []),
      x_AddMsgSet = admitMsgSet,
      x_AddObservable = (\<lambda>mset cfg w. (Inr 0, w)),
      x_readStoredState = (\<lambda>obs w. (None, w)),
      x_EraseMsg = (\<lambda>mset seq w. (False, w)),
      x_stopMsgSets = (\<lambda>regs w. w)\<rparr>"

text \<open>A stand-alone server before JetStream is enabled; every account is registered.\<close>

definition blankServer :: "unit Server" where
  "blankServer =
     \<lparr>srv_js = None,
      standAloneMode = True,
      accts = (\<lambda>a. \<lparr>Name = ''ACC'', srv = True, acc_js = None\<rparr>),
      jsas = (\<lambda>r. \<lparr>account = 0,
                    limits = \<lparr>MaxMemory = 0, MaxStore = 0, MaxMsgSets = 0, MaxObservables = 0\<rparr>,
                    jsa_memReserved = 0, memUsed = 0, jsa_storeReserved = 0, storeUsed = 0,
                    storeDir = [], msgSets = Map.empty\<rparr>),
      next_jsa = 0,
      world = (),
      logs = [],
      outbox = []\<rparr>"

text \<open>The same server with an engine of 1 GiB of memory and of storage installed.\<close>

definition engineServer :: "unit Server" where
  "engineServer =
     blankServer\<lparr>srv_js := Some \<lparr>config = \<lparr>cfg_MaxMemory = 1073741824,
                                             cfg_MaxStore = 1073741824,
                                             cfg_StoreDir = ''/js''\<rparr>,
                                   accounts = Map.empty,
                                   memReserved = 0, storeReserved = 0\<rparr>\<rparr>"

text \<open>
  A store directory that holds one message set, \<open>S1\<close>, kept in memory with a bound of
  4096 bytes; both meta files are present and \<open>meta.inf\<close> parses.
\<close>

definition dirS1 :: MsgSetDir where
  "dirS1 =
     \<lparr>fi_Name = ''S1'', fi_meta_exists = True, fi_read_ok = True, fi_sum_exists = True,
      fi_cfg = Some \<lparr>ms_Name = ''S1'', ms_Storage = MemoryStorage, ms_MaxBytes = 4096,
                     ms_Replicas = 1, ms_MaxObservables = 0\<rparr>,
      fi_obs = []\<rparr>"

definition diskS1Ext :: "unit ext" where
  "diskS1Ext = quietExt\<lparr>x_ReadDir := (\<lambda>dir w. [dirS1])\<rparr>"

text \<open>
  The server after account 1 has been enabled with a memory limit of 600 MiB and the
  other limits zero: the state that \<open>Account.EnableJetStream\<close> leaves (see
  \<open>accountServer_reached\<close>).
\<close>

definition limits600 :: JetStreamAccountLimits where
  "limits600 = \<lparr>MaxMemory = 629145600, MaxStore = 0, MaxMsgSets = 0, MaxObservables = 0\<rparr>"

definition accountServer :: "unit Server" where
  "accountServer =
     engineServer
       \<lparr>srv_js := Some \<lparr>config = \<lparr>cfg_MaxMemory = 1073741824, cfg_MaxStore = 1073741824,
                                    cfg_StoreDir = ''/js''\<rparr>,
                          accounts = [1 \<mapsto> 0],
                          memReserved = 629145600, storeReserved = 0\<rparr>,
        accts := (accts engineServer)(1 := \<lparr>Name = ''ACC'', srv = True, acc_js = Some 0\<rparr>),
        jsas := (jsas engineServer)
                  (0 := \<lparr>account = 1, limits = limits600,
                          jsa_memReserved = 0, memUsed = 0, jsa_storeReserved = 0, storeUsed = 0,
                          storeDir = ''/js/ACC'', msgSets = Map.empty\<rparr>),
        next_jsa := 1,
        logs := [(DebugL, ''Enabled JetStream for account %q''),
                 (DebugL, ''  Max Memory:      %s''),
                 (DebugL, ''  Max Storage:     %s''),
                 (NoticeL, ''JetStream state for account %q recovered'')]\<rparr>"

text \<open>The same with a message set \<open>S1\<close> registered for the account.\<close>

definition accountServerS1 :: "unit Server" where
  "accountServerS1 =
     accountServer\<lparr>jsas := (jsas accountServer)(0 := (jsas accountServer 0)\<lparr>msgSets := [''S1'' \<mapsto> 0]\<rparr>)\<rparr>"

section \<open>Basic facts\<close>

lemmas signed_cmp = word_sless_alt word_sle_eq

lemma logf_sel [simp]:
  "srv_js (logf lv f s) = srv_js s"
  "accts (logf lv f s) = accts s"
  "jsas (logf lv f s) = jsas s"
  "next_jsa (logf lv f s) = next_jsa s"
  "world (logf lv f s) = world s"
  "outbox (logf lv f s) = outbox s"
  "standAloneMode (logf lv f s) = standAloneMode s"
  "logs (logf lv f s) = logs s @ [(lv, f)]"
  by (simp_all add: logf_def)

lemma quietExt_sel:
  "x_TempDir quietExt = ''/tmp''"
  "x_Memory quietExt = 8589934592"
  "x_Join quietExt = (\<lambda>a b. a @ ''/'' @ b)"
  "x_Stat quietExt = (\<lambda>dir w. IsDirectory)"
  "x_MkdirAll quietExt = (\<lambda>dir w. (None, w))"
  "x_TempFile quietExt = (\<lambda>dir w. (True, w))"
  "x_SystemAccount quietExt = (\<lambda>w. Some 0)"
  "x_SetDefaultSystemAccount quietExt = (\<lambda>w. w)"
  "x_sysSubscribe quietExt = (\<lambda>subj w. (None, w))"
  "x_AddServiceExport quietExt = (\<lambda>sacc subj w. (None, w))"
  "x_globalAccountOnly quietExt = (\<lambda>w. False)"
  "x_GlobalAccount quietExt = 1"
  "x_AddServiceImport quietExt = (\<lambda>a sys from to w. (None, w))"
  "x_removeServiceImport quietExt = (\<lambda>a from w. w)"
  "x_ReadDir quietExt = (\<lambda>dir w. [])"
  "x_AddMsgSet quietExt = admitMsgSet"
  "x_AddObservable quietExt = (\<lambda>mset cfg w. (Inr 0, w))"
  "x_readStoredState quietExt = (\<lambda>obs w. (None, w))"
  "x_EraseMsg quietExt = (\<lambda>mset seq w. (False, w))"
  "x_stopMsgSets quietExt = (\<lambda>regs w. w)"
  by (simp_all add: quietExt_def)

lemma diskS1Ext_sel:
  "x_Join diskS1Ext = (\<lambda>a b. a @ ''/'' @ b)"
  "x_SystemAccount diskS1Ext = (\<lambda>w. Some 0)"
  "x_AddServiceImport diskS1Ext = (\<lambda>a sys from to w. (None, w))"
  "x_ReadDir diskS1Ext = (\<lambda>dir w. [dirS1])"
  "x_AddMsgSet diskS1Ext = admitMsgSet"
  by (simp_all add: diskS1Ext_def quietExt_def)

lemma engineServer_sel:
  "srv_js engineServer =
     Some \<lparr>config = \<lparr>cfg_MaxMemory = 1073741824, cfg_MaxStore = 1073741824, cfg_StoreDir = ''/js''\<rparr>,
           accounts = Map.empty, memReserved = 0, storeReserved = 0\<rparr>"
  "accts engineServer = (\<lambda>a. \<lparr>Name = ''ACC'', srv = True, acc_js = None\<rparr>)"
  "next_jsa engineServer = 0"
  "world engineServer = ()"
  "outbox engineServer = []"
  by (simp_all add: engineServer_def blankServer_def)

lemma addServiceImports_ok:
  "x_AddServiceImport ext = (\<lambda>a sys from to w. (None, w)) \<Longrightarrow>
     addServiceImports ext a sys nm xs w = (None, w)"
  by (induction xs arbitrary: w) simp_all

section \<open>Quota arithmetic: reserve, release and the difference of limits\<close>

text \<open>
  C9. For every limits record \<open>d\<close> and every state of the engine, reserving \<open>d\<close> and then
  releasing \<open>d\<close> gives back the engine as it was, so \<open>memReserved\<close> and \<open>storeReserved\<close>
  return to exactly their prior values. The additions and subtractions are those of
  \<open>int64\<close>, so this holds with wrap-around too.
\<close>

theorem C9_reserve_then_release:
  "releaseResources (Some d) (reserveResources (Some d) js) = js"
  by (simp add: releaseResources_def reserveResources_def Let_def)

theorem C9_reserve_then_release_witness:
  "releaseResources
     (Some \<lparr>MaxMemory = 600, MaxStore = - 1, MaxMsgSets = - 1, MaxObservables = - 1\<rparr>)
     (reserveResources
        (Some \<lparr>MaxMemory = 600, MaxStore = - 1, MaxMsgSets = - 1, MaxObservables = - 1\<rparr>)
        \<lparr>config = \<lparr>cfg_MaxMemory = 1024, cfg_MaxStore = 1024, cfg_StoreDir = ''/js''\<rparr>,
         accounts = Map.empty, memReserved = 300, storeReserved = 0\<rparr>)
   = \<lparr>config = \<lparr>cfg_MaxMemory = 1024, cfg_MaxStore = 1024, cfg_StoreDir = ''/js''\<rparr>,
      accounts = Map.empty, memReserved = 300, storeReserved = 0\<rparr>"
  using C9_reserve_then_release
    [of "\<lparr>MaxMemory = 600, MaxStore = - 1, MaxMsgSets = - 1, MaxObservables = - 1\<rparr>"
        "\<lparr>config = \<lparr>cfg_MaxMemory = 1024, cfg_MaxStore = 1024, cfg_StoreDir = ''/js''\<rparr>,
         accounts = Map.empty, memReserved = 300, storeReserved = 0\<rparr>"]
  by simp

text \<open>
  C5, as the claim states it, fails: between the zero record and a record with
  \<open>MaxMsgSets = 3\<close> the difference computed has \<open>MaxMsgSets = 0\<close>, not 3.
\<close>

theorem C5_diff_counterexample:
  "MaxMsgSets (diffCheckedLimits
       \<lparr>MaxMemory = 0, MaxStore = 0, MaxMsgSets = 0, MaxObservables = 0\<rparr>
       \<lparr>MaxMemory = 0, MaxStore = 0, MaxMsgSets = 3, MaxObservables = 7\<rparr>)
     \<noteq> MaxMsgSets \<lparr>MaxMemory = 0, MaxStore = 0, MaxMsgSets = 3, MaxObservables = 7\<rparr>
       - MaxMsgSets \<lparr>MaxMemory = 0, MaxStore = 0, MaxMsgSets = 0, MaxObservables = 0\<rparr>"
  by (simp add: diffCheckedLimits_def)

text \<open>
  C5 (amended). For every pair of limits records \<open>old\<close> and \<open>new\<close>, the difference
  computed by \<open>diffCheckedLimits\<close> is \<open>new - old\<close> in the two checked fields, \<open>MaxMemory\<close>
  and \<open>MaxStore\<close>, and is zero in \<open>MaxMsgSets\<close> and \<open>MaxObservables\<close>; in the two checked
  fields it agrees with the componentwise difference of the spec.
\<close>

theorem C5_diff_checked_fields:
  "MaxMemory (diffCheckedLimits old new) = MaxMemory new - MaxMemory old
   \<and> MaxStore (diffCheckedLimits old new) = MaxStore new - MaxStore old
   \<and> MaxMsgSets (diffCheckedLimits old new) = 0
   \<and> MaxObservables (diffCheckedLimits old new) = 0
   \<and> MaxMemory (diffCheckedLimits old new) = MaxMemory (diffLimits_spec old new)
   \<and> MaxStore (diffCheckedLimits old new) = MaxStore (diffLimits_spec old new)"
  by (simp add: diffCheckedLimits_def diffLimits_spec_def)

theorem C5_diff_checked_fields_witness:
  "diffCheckedLimits
     \<lparr>MaxMemory = 10, MaxStore = 20, MaxMsgSets = 1, MaxObservables = 2\<rparr>
     \<lparr>MaxMemory = 15, MaxStore = 18, MaxMsgSets = 3, MaxObservables = 7\<rparr>
   = \<lparr>MaxMemory = 5, MaxStore = - 2, MaxMsgSets = 0, MaxObservables = 0\<rparr>"
  using C5_diff_checked_fields
    [of "\<lparr>MaxMemory = 10, MaxStore = 20, MaxMsgSets = 1, MaxObservables = 2\<rparr>"
        "\<lparr>MaxMemory = 15, MaxStore = 18, MaxMsgSets = 3, MaxObservables = 7\<rparr>"]
  by (cases "diffCheckedLimits
     \<lparr>MaxMemory = 10, MaxStore = 20, MaxMsgSets = 1, MaxObservables = 2\<rparr>
     \<lparr>MaxMemory = 15, MaxStore = 18, MaxMsgSets = 3, MaxObservables = 7\<rparr>") simp

section \<open>Admission control\<close>

text \<open>
  C2. The claim says that a request is turned away for its observables only when the
  account limit is positive. At an account whose limit is \<open>-1\<close> (unlimited, the value
  \<open>dynamicAccountLimits\<close> gives) a config asking for 5 observables is turned away with
  "maximum observables exceeds account limit", and the config is left as it was: the
  guard of \<open>checkLimits\<close> tests the sign of the config's value, not of the account's limit.
\<close>

theorem C2_checkLimits_rejects_under_unlimited_cap:
  "checkLimits
     \<lparr>account = 0,
      limits = \<lparr>MaxMemory = 1024, MaxStore = 1024, MaxMsgSets = - 1, MaxObservables = - 1\<rparr>,
      jsa_memReserved = 0, memUsed = 0, jsa_storeReserved = 0, storeUsed = 0,
      storeDir = ''/js/ACC'', msgSets = Map.empty\<rparr>
     \<lparr>ms_Name = ''S1'', ms_Storage = MemoryStorage, ms_MaxBytes = 0,
      ms_Replicas = 1, ms_MaxObservables = 5\<rparr>
   = (Some ''maximum observables exceeds account limit'',
      \<lparr>ms_Name = ''S1'', ms_Storage = MemoryStorage, ms_MaxBytes = 0,
       ms_Replicas = 1, ms_MaxObservables = 5\<rparr>)"
  by (simp add: checkLimits_def signed_cmp)

text \<open>
  What the code does at this step, once the count of sets and the replicas have passed:
  it turns the request away exactly when the config asks for a positive number of
  observables above the account's limit, whatever the sign of that limit, and otherwise
  writes the account's limit into the config.
\<close>

lemma checkLimits_observables_step:
  assumes "\<not> (0 <s MaxMsgSets (limits jsa)
              \<and> MaxMsgSets (limits jsa) \<le>s of_nat (card (dom (msgSets jsa))))"
    and "ms_Replicas cfg = 1"
  shows "fst (checkLimits jsa cfg) = Some ''maximum observables exceeds account limit''
           \<longleftrightarrow> 0 <s ms_MaxObservables cfg \<and> MaxObservables (limits jsa) <s ms_MaxObservables cfg"
    and "fst (checkLimits jsa cfg) \<noteq> Some ''maximum observables exceeds account limit'' \<Longrightarrow>
           ms_MaxObservables (snd (checkLimits jsa cfg)) = MaxObservables (limits jsa)"
  using assms
  by (auto simp: checkLimits_def Let_def split: StorageType.splits if_splits)

section \<open>Recovery\<close>

text \<open>
  C1. The claim says that when \<open>AddMsgSet\<close> fails during recovery the set is skipped and
  the nil handle is never used. On a store directory that holds the set \<open>S1\<close> (both meta
  files present, \<open>meta.inf\<close> parsing) with a bound of 4096 bytes in memory, enabling the
  account with a memory limit of 1024 bytes makes \<open>AddMsgSet\<close> fail in admission
  control; the error branch logs and does not skip, \<open>Stats\<close> is called on the nil
  handle, and the call panics.
\<close>

theorem C1_recovery_add_error_panics:
  "Account_EnableJetStream diskS1Ext 1
     (Some \<lparr>MaxMemory = 1024, MaxStore = 1024, MaxMsgSets = - 1, MaxObservables = - 1\<rparr>)
     engineServer = Panic"
  by (simp add: Account_EnableJetStream_def addServiceImports_ok diskS1Ext_sel engineServer_sel
       sufficientResources_def admitMsgSet_def dirS1_def checkLimits_def
       handle_of_def MsgSet_Stats_def regs_of_def signed_cmp Let_def)

text \<open>With a memory limit that admits the set, the same directory is recovered.\<close>

lemma recovery_registers_S1:
  "\<exists>s'. Account_EnableJetStream diskS1Ext 1
          (Some \<lparr>MaxMemory = 8192, MaxStore = 1024, MaxMsgSets = - 1, MaxObservables = - 1\<rparr>)
          engineServer = Ret (None, s')
        \<and> msgSets (jsas s' 0) = [''S1'' \<mapsto> 0]"
  by (simp add: Account_EnableJetStream_def addServiceImports_ok diskS1Ext_sel engineServer_sel
       sufficientResources_def admitMsgSet_def dirS1_def checkLimits_def
       handle_of_def MsgSet_Stats_def regs_of_def signed_cmp Let_def)

section \<open>Recovery leaves the engine alone\<close>

lemma recoverObservables_frame:
  "srv_js (recoverObservables ext m ofis s) = srv_js s
   \<and> accts (recoverObservables ext m ofis s) = accts s
   \<and> jsas (recoverObservables ext m ofis s) = jsas s
   \<and> next_jsa (recoverObservables ext m ofis s) = next_jsa s
   \<and> standAloneMode (recoverObservables ext m ofis s) = standAloneMode s
   \<and> outbox (recoverObservables ext m ofis s) = outbox s"
proof (induction ofis arbitrary: s)
  case Nil
  show ?case by simp
next
  case (Cons ofi ofis)
  show ?case
    by (simp add: Cons.IH split: option.split prod.split sum.split)
qed

lemma recoverMsgSets_frame:
  "recoverMsgSets ext r fis s = Ret s' \<Longrightarrow>
     srv_js s' = srv_js s \<and> accts s' = accts s \<and> next_jsa s' = next_jsa s
     \<and> standAloneMode s' = standAloneMode s \<and> outbox s' = outbox s
     \<and> (\<forall>q. limits (jsas s' q) = limits (jsas s q) \<and> account (jsas s' q) = account (jsas s q))
     \<and> (\<forall>q. q \<noteq> r \<longrightarrow> jsas s' q = jsas s q)"
proof (induction fis arbitrary: s)
  case Nil
  then show ?case by simp
next
  case (Cons fi fis)
  show ?case
  proof (cases "fi_meta_exists fi \<and> fi_read_ok fi \<and> fi_sum_exists fi \<and> fi_cfg fi \<noteq> None")
    case False
    with Cons.prems have "\<exists>lv f. recoverMsgSets ext r fis (logf lv f s) = Ret s'"
      by (auto split: if_splits option.splits)
    then obtain lv f where "recoverMsgSets ext r fis (logf lv f s) = Ret s'" by blast
    from Cons.IH [OF this] show ?thesis by simp
  next
    case True
    then obtain cfg where cfg: "fi_cfg fi = Some cfg" by auto
    obtain res w1 where call: "x_AddMsgSet ext cfg (jsas s r) (world s) = (res, w1)"
      by (cases "x_AddMsgSet ext cfg (jsas s r) (world s)")
    from Cons.prems True cfg call obtain m regs where res: "res = Inr (m, regs)"
      by (cases res) (auto simp: handle_of_def MsgSet_Stats_def Let_def)
    define s1 where "s1 = s\<lparr>jsas := (jsas s)(r := (jsas s r)\<lparr>msgSets := regs\<rparr>), world := w1\<rparr>"
    define s3 where "s3 = logf NoticeL ''  Restored %d messages for MsgSet %q'' s1"
    define s4 where "s4 = (if 0 < length (fi_obs fi)
        then logf NoticeL ''  Recovering %d Observables for MsgSet - %q'' s3 else s3)"
    from Cons.prems True cfg call res
    have "recoverMsgSets ext r fis (recoverObservables ext m (fi_obs fi) s4) = Ret s'"
      by (auto simp add: handle_of_def MsgSet_Stats_def regs_of_def Let_def s1_def s3_def s4_def
            split: if_splits)
    from Cons.IH [OF this] show ?thesis
      by (simp add: recoverObservables_frame s4_def s3_def s1_def)
  qed
qed

text \<open>A set whose \<open>AddMsgSet\<close> fails ends recovery, whatever follows it on disk.\<close>

lemma recoverMsgSets_add_error:
  assumes "fi_meta_exists fi" and "fi_read_ok fi" and "fi_sum_exists fi"
    and "fi_cfg fi = Some cfg"
    and "fst (x_AddMsgSet ext cfg (jsas s r) (world s)) = Inl err"
  shows "recoverMsgSets ext r (fi # fis) s = Panic"
  using assms
  by (cases "x_AddMsgSet ext cfg (jsas s r) (world s)")
     (simp add: handle_of_def MsgSet_Stats_def Let_def)

section \<open>Account enablement, case by case\<close>

lemma Account_EnableJetStream_refused:
  assumes "srv (accts s a)" and "srv_js s = Some js"
    and "l = (case lim of None \<Rightarrow> dynamicAccountLimits js | Some l0 \<Rightarrow> l0)"
  shows "sufficientResources js (Some l) = Some err \<Longrightarrow>
           Account_EnableJetStream ext a lim s = Ret (Some err, s)"
    and "sufficientResources js (Some l) = None \<Longrightarrow> accounts js a \<noteq> None \<Longrightarrow>
           Account_EnableJetStream ext a lim s
             = Ret (Some ''jetstream already enabled for account'', s)"
  using assms by (simp_all add: Account_EnableJetStream_def Let_def)

lemma Account_EnableJetStream_admitted:
  assumes "srv (accts s a)" and "srv_js s = Some js"
    and "l = (case lim of None \<Rightarrow> dynamicAccountLimits js | Some l0 \<Rightarrow> l0)"
    and "sufficientResources js (Some l) = None" and "accounts js a = None"
    and "Account_EnableJetStream ext a lim s = Ret (e, s')"
  shows "srv_js s' = Some (reserveResources (Some l) (js\<lparr>accounts := (accounts js)(a \<mapsto> next_jsa s)\<rparr>))
     \<and> next_jsa s' = Suc (next_jsa s)
     \<and> limits (jsas s' (next_jsa s)) = l
     \<and> account (jsas s' (next_jsa s)) = a
     \<and> (\<forall>q. q \<noteq> next_jsa s \<longrightarrow> jsas s' q = jsas s q)
     \<and> accts s' = (accts s)(a := (accts s a)\<lparr>acc_js := Some (next_jsa s)\<rparr>)
     \<and> standAloneMode s' = standAloneMode s \<and> outbox s' = outbox s"
  using assms
  by (auto simp: Account_EnableJetStream_def Let_def
        split: prod.splits option.splits result.splits if_splits
        dest!: recoverMsgSets_frame)

lemma accountServer_reached:
  "Account_EnableJetStream quietExt 1 (Some limits600) engineServer = Ret (None, accountServer)"
  by (simp add: Account_EnableJetStream_def addServiceImports_ok quietExt_sel engineServer_sel
       sufficientResources_def reserveResources_def limits600_def accountServer_def
       signed_cmp Let_def logf_def engineServer_def blankServer_def)

lemma accountServer_sel:
  "srv_js accountServer =
     Some \<lparr>config = \<lparr>cfg_MaxMemory = 1073741824, cfg_MaxStore = 1073741824, cfg_StoreDir = ''/js''\<rparr>,
           accounts = [1 \<mapsto> 0], memReserved = 629145600, storeReserved = 0\<rparr>"
  "accts accountServer (Suc 0) = \<lparr>Name = ''ACC'', srv = True, acc_js = Some 0\<rparr>"
  "a \<noteq> Suc 0 \<Longrightarrow> accts accountServer a = \<lparr>Name = ''ACC'', srv = True, acc_js = None\<rparr>"
  "limits (jsas accountServer 0) = limits600"
  "account (jsas accountServer 0) = Suc 0"
  "msgSets (jsas accountServer 0) = Map.empty"
  "next_jsa accountServer = 1"
  "world accountServer = ()"
  "outbox accountServer = []"
  by (simp_all add: accountServer_def engineServer_def blankServer_def)

lemma accountServerS1_sel:
  "accts accountServerS1 (Suc 0) = \<lparr>Name = ''ACC'', srv = True, acc_js = Some 0\<rparr>"
  "msgSets (jsas accountServerS1 0) = [''S1'' \<mapsto> 0]"
  "world accountServerS1 = ()"
  "outbox accountServerS1 = []"
  by (simp_all add: accountServerS1_def accountServer_def engineServer_def blankServer_def)

section \<open>The request to delete a message\<close>

lemma length_strings_Split: "length (strings_Split s c) = Suc (count_list s c)"
  by (induction s) (auto split: list.splits)

lemma fmt_d_zero: "fmt_d 0 = ''0''"
  by (simp add: fmt_d_def dec_nat.simps digit_char_def)

text \<open>
  C8. For a request to delete a message on a JetStream-enabled account whose body does
  not split on single spaces into exactly two tokens, the handler sends exactly the
  reply \<open>-ERR 'bad request'\<close> and changes nothing else: the state after the call is the
  state before it with that one reply added to the messages sent.
\<close>

theorem C8_bad_request_when_not_two_tokens:
  assumes "acc cl = Some a"
    and "Account_JetStreamEnabled s (Some a)"
    and "length (strings_Split msg CHR '' '') \<noteq> 2"
  shows "jsMsgDeleteRequest ext (Some cl) reply msg s
           = s\<lparr>outbox := outbox s
                  @ [(a, reply, ''-ERR '' @ [CHR 0x27] @ ''bad request'' @ [CHR 0x27])]\<rparr>"
  using assms
  by (simp add: jsMsgDeleteRequest_def sendInternalAccountMsg_def JetStreamBadRequest_def Let_def)

theorem C8_bad_request_when_not_two_tokens_witness:
  "acc \<lparr>acc = Some 1\<rparr> = Some 1
   \<and> Account_JetStreamEnabled accountServerS1 (Some 1)
   \<and> length (strings_Split ''S1'' CHR '' '') \<noteq> 2
   \<and> jsMsgDeleteRequest quietExt (Some \<lparr>acc = Some 1\<rparr>) ''_INBOX.1'' ''S1'' accountServerS1
       = accountServerS1
           \<lparr>outbox := [(1, ''_INBOX.1'', ''-ERR '' @ [CHR 0x27] @ ''bad request'' @ [CHR 0x27])]\<rparr>"
proof -
  have enabled: "Account_JetStreamEnabled accountServerS1 (Some 1)"
    by (simp add: Account_JetStreamEnabled_def accountServerS1_sel)
  have tokens: "length (strings_Split ''S1'' CHR '' '') \<noteq> 2"
    by simp
  show ?thesis
    using enabled tokens
      C8_bad_request_when_not_two_tokens
        [where cl = "\<lparr>acc = Some 1\<rparr>" and a = 1 and s = accountServerS1 and msg = "''S1''"
           and ext = quietExt and reply = "''_INBOX.1''"]
    by (simp add: accountServerS1_sel)
qed

lemma scan_digits_error:
  "snd (scan_digits n ds) = Some ErrSyntax \<Longrightarrow> fst (scan_digits n ds) = 0"
  "snd (scan_digits n ds) = Some ErrRange \<Longrightarrow> fst (scan_digits n ds) = maxUint64"
  by (induction n ds rule: scan_digits.induct; simp split: if_splits)+

lemma scan_digits_rejects:
  "\<not> list_all is_digit ds \<Longrightarrow> snd (scan_digits n ds) \<noteq> None"
  by (induction n ds rule: scan_digits.induct) (auto split: if_splits)

lemma Atoi_syntax_error: "snd (Atoi tok) = Some ErrSyntax \<Longrightarrow> fst (Atoi tok) = 0"
  by (auto simp: Atoi_def Let_def split: prod.splits option.splits NumError.splits if_splits)

lemma Atoi_range_error:
  "snd (Atoi tok) = Some ErrRange \<Longrightarrow> fst (Atoi tok) = 2 ^ 63 - 1 \<or> fst (Atoi tok) = - (2 ^ 63)"
  by (auto simp: Atoi_def Let_def split: prod.splits option.splits NumError.splits if_splits)

lemma Atoi_rejects_non_integer: "\<not> integer_syntax tok \<Longrightarrow> snd (Atoi tok) \<noteq> None"
proof -
  assume h: "\<not> integer_syntax tok"
  show ?thesis
  proof (cases "unsigned_part tok = []")
    case True
    then show ?thesis by (simp add: Atoi_def ParseUint_def Let_def)
  next
    case False
    with h have "\<not> list_all is_digit (unsigned_part tok)" by (simp add: integer_syntax_def)
    from scan_digits_rejects [OF this, of 0] False
    obtain e where e: "snd (ParseUint (unsigned_part tok)) = Some e"
      by (auto simp: ParseUint_def)
    from scan_digits_error [of 0 "unsigned_part tok"] False
    have r: "snd (ParseUint (unsigned_part tok)) = Some ErrRange \<Longrightarrow> fst (ParseUint (unsigned_part tok)) = maxUint64"
      by (simp add: ParseUint_def)
    show ?thesis
      using e r False
      by (cases e; cases "ParseUint (unsigned_part tok)")
         (auto simp: Atoi_def Let_def maxUint64_def unsigned_part_def split: list.splits if_splits)
  qed
qed


lemmas Atoi_eval = Atoi_def ParseUint_def unsigned_part_def is_digit_def maxUint64_def

text \<open>
  A token that is not an integer at all can still end in a range error: the digits that
  overflow are read before the character that is no digit.
\<close>

lemma Atoi_overflow_before_garbage:
  "\<not> integer_syntax ''99999999999999999999x''
   \<and> Atoi ''99999999999999999999x'' = (9223372036854775807, Some ErrRange)"
  by (simp add: integer_syntax_def Atoi_eval)

lemma fmt_d_max: "fmt_d 9223372036854775807 = ''9223372036854775807''"
  by (simp add: fmt_d_def dec_nat.simps digit_char_def)

text \<open>
  C10, as the claim states it, fails: the second token of the body
  \<open>S1 99999999999999999999\<close> is no valid \<open>int\<close>, \<open>Atoi\<close> rejects it with a range error, and the
  sequence is then the largest \<open>int\<close>, not 0; with the set \<open>S1\<close> registered and \<open>EraseMsg\<close>
  reporting failure the reply is \<open>-ERR sequence [9223372036854775807] not found\<close>.
\<close>

theorem C10_sequence_counterexample:
  "strings_Split ''S1 99999999999999999999'' CHR '' '' = [''S1'', ''99999999999999999999'']
   \<and> Atoi ''99999999999999999999'' = (9223372036854775807, Some ErrRange)
   \<and> Account_LookupMsgSet accountServerS1 1 ''S1'' = Inr 0
   \<and> \<not> fst (x_EraseMsg quietExt 0 9223372036854775807 (world accountServerS1))
   \<and> jsMsgDeleteRequest quietExt (Some \<lparr>acc = Some 1\<rparr>) ''_INBOX.1''
        ''S1 99999999999999999999'' accountServerS1
       = accountServerS1
           \<lparr>outbox := [(1, ''_INBOX.1'', ''-ERR sequence [9223372036854775807] not found'')]\<rparr>
   \<and> ''-ERR sequence [9223372036854775807] not found'' \<noteq> ''-ERR sequence [0] not found''"
  by (simp add: jsMsgDeleteRequest_def Account_JetStreamEnabled_def Account_LookupMsgSet_def
        accountServerS1_sel quietExt_sel Atoi_eval sendInternalAccountMsg_def ErrPrefix_def
        fmt_d_max Let_def)

text \<open>
  C10 (amended). For a request to delete a message whose body has exactly two
  space-separated tokens and whose second token \<open>Atoi\<close> rejects: the error is discarded and
  the sequence is the value \<open>Atoi\<close> returns next to it, which is 0 after a syntax error and
  the nearest bound of \<open>int\<close> after a range error. On an enabled account the handler looks
  the set up and, when it exists, calls \<open>EraseMsg\<close> with that sequence; when that reports
  failure the reply is exactly \<open>-ERR sequence [N] not found\<close> for that value \<open>N\<close>, so
  \<open>-ERR sequence [0] not found\<close> after a syntax error. Exactly one reply is sent and it
  is never \<open>-ERR 'bad request'\<close>.
\<close>

theorem C10_rejected_sequence_not_bad_request:
  assumes "acc cl = Some a"
    and "strings_Split msg CHR '' '' = [nm, tok]"
    and "Atoi tok = (seq, Some err)"
  shows "(err = ErrSyntax \<longrightarrow> seq = 0)
    \<and> (err = ErrRange \<longrightarrow> seq = 2 ^ 63 - 1 \<or> seq = - (2 ^ 63))
    \<and> jsMsgDeleteRequest ext (Some cl) reply msg s =
        (if \<not> Account_JetStreamEnabled s (Some a)
         then sendInternalAccountMsg a reply JetStreamNotEnabled s
         else
           (case Account_LookupMsgSet s a nm of
              Inl e \<Rightarrow> sendInternalAccountMsg a reply (''-ERR '' @ e) s
            | Inr mset \<Rightarrow>
                sendInternalAccountMsg a reply
                  (if fst (x_EraseMsg ext mset seq (world s)) then ''+OK''
                   else ''-ERR sequence ['' @ fmt_d (sint seq) @ ''] not found'')
                  (s\<lparr>world := snd (x_EraseMsg ext mset seq (world s))\<rparr>)))
    \<and> (err = ErrSyntax \<longrightarrow>
          ''-ERR sequence ['' @ fmt_d (sint seq) @ ''] not found'' = ''-ERR sequence [0] not found'')
    \<and> (\<exists>p. outbox (jsMsgDeleteRequest ext (Some cl) reply msg s) = outbox s @ [(a, reply, p)]
            \<and> p \<noteq> JetStreamBadRequest)"
proof -
  have syn: "err = ErrSyntax \<longrightarrow> seq = 0"
    using Atoi_syntax_error [of tok] assms(3) by simp
  have rng: "err = ErrRange \<longrightarrow> seq = 2 ^ 63 - 1 \<or> seq = - (2 ^ 63)"
    using Atoi_range_error [of tok] assms(3) by simp
  have eq: "jsMsgDeleteRequest ext (Some cl) reply msg s =
        (if \<not> Account_JetStreamEnabled s (Some a)
         then sendInternalAccountMsg a reply JetStreamNotEnabled s
         else
           (case Account_LookupMsgSet s a nm of
              Inl e \<Rightarrow> sendInternalAccountMsg a reply (''-ERR '' @ e) s
            | Inr mset \<Rightarrow>
                sendInternalAccountMsg a reply
                  (if fst (x_EraseMsg ext mset seq (world s)) then ''+OK''
                   else ''-ERR sequence ['' @ fmt_d (sint seq) @ ''] not found'')
                  (s\<lparr>world := snd (x_EraseMsg ext mset seq (world s))\<rparr>)))"
    using assms
    by (simp add: jsMsgDeleteRequest_def Let_def ErrPrefix_def OK_def
          split: sum.split prod.split)
  have zero: "err = ErrSyntax \<longrightarrow>
          ''-ERR sequence ['' @ fmt_d (sint seq) @ ''] not found'' = ''-ERR sequence [0] not found''"
    using syn by (simp add: fmt_d_zero)
  have lookup: "e = ''jetstream not enabled'' \<or> e = ''msgset not found''"
    if "Account_LookupMsgSet s a nm = Inl e" for e
    using that by (auto simp: Account_LookupMsgSet_def split: option.splits)
  have "\<exists>p. outbox (jsMsgDeleteRequest ext (Some cl) reply msg s) = outbox s @ [(a, reply, p)]
            \<and> p \<noteq> JetStreamBadRequest"
  proof (cases "Account_JetStreamEnabled s (Some a)")
    case False
    then show ?thesis
      unfolding eq
      by (simp add: sendInternalAccountMsg_def JetStreamBadRequest_def JetStreamNotEnabled_def)
  next
    case True
    show ?thesis
    proof (cases "Account_LookupMsgSet s a nm")
      case (Inl e)
      with lookup [OF Inl] True show ?thesis
        unfolding eq by (auto simp: sendInternalAccountMsg_def JetStreamBadRequest_def)
    next
      case (Inr mset)
      with True show ?thesis
        unfolding eq by (simp add: sendInternalAccountMsg_def JetStreamBadRequest_def)
    qed
  qed
  with syn rng eq zero show ?thesis by blast
qed

theorem C10_rejected_sequence_not_bad_request_witness:
  "Account_JetStreamEnabled accountServerS1 (Some 1)
   \<and> strings_Split ''S1 abc'' CHR '' '' = [''S1'', ''abc'']
   \<and> Atoi ''abc'' = (0, Some ErrSyntax)
   \<and> jsMsgDeleteRequest quietExt (Some \<lparr>acc = Some 1\<rparr>) ''_INBOX.1'' ''S1 abc'' accountServerS1
       = accountServerS1\<lparr>outbox := [(1, ''_INBOX.1'', ''-ERR sequence [0] not found'')]\<rparr>
   \<and> strings_Split ''S1 -99999999999999999999'' CHR '' '' = [''S1'', ''-99999999999999999999'']
   \<and> Atoi ''-99999999999999999999'' = (- (2 ^ 63), Some ErrRange)"
proof -
  have enabled: "Account_JetStreamEnabled accountServerS1 (Some 1)"
    by (simp add: Account_JetStreamEnabled_def accountServerS1_sel)
  have tokens: "strings_Split ''S1 abc'' CHR '' '' = [''S1'', ''abc'']"
    by simp
  have rejected: "Atoi ''abc'' = (0, Some ErrSyntax)"
    by (simp add: Atoi_eval)
  have found: "Account_LookupMsgSet accountServerS1 1 ''S1'' = Inr 0"
    by (simp add: Account_LookupMsgSet_def accountServerS1_sel)
  have tokens2: "strings_Split ''S1 -99999999999999999999'' CHR '' '' = [''S1'', ''-99999999999999999999'']"
    by simp
  have rejected2: "Atoi ''-99999999999999999999'' = (- (2 ^ 63), Some ErrRange)"
    by (simp add: Atoi_eval)
  have "jsMsgDeleteRequest quietExt (Some \<lparr>acc = Some 1\<rparr>) ''_INBOX.1'' ''S1 abc'' accountServerS1
       = accountServerS1\<lparr>outbox := [(1, ''_INBOX.1'', ''-ERR sequence [0] not found'')]\<rparr>"
    using enabled found
      C10_rejected_sequence_not_bad_request [where cl = "\<lparr>acc = Some 1\<rparr>" and a = 1 and s = accountServerS1 and msg = "''S1 abc''"
           and nm = "''S1''" and tok = "''abc''" and seq = 0 and err = ErrSyntax
           and ext = quietExt and reply = "''_INBOX.1''", OF _ tokens rejected]
    by (simp add: accountServerS1_sel quietExt_sel sendInternalAccountMsg_def fmt_d_zero)
  with enabled tokens rejected tokens2 rejected2 show ?thesis by blast
qed

section \<open>Account enablement: the two checks\<close>

text \<open>
  C6. Account enablement first checks \<open>sufficientResources\<close> on the limits and fails with
  the quota error ("insufficient memory resources available" or "insufficient storage
  resources available") when they do not fit; it then fails with the exact error
  "jetstream already enabled for account" when the account is already in the registry. On
  either failure the whole state, and so the accounts map and the reserved counters, is
  unchanged. Only when both checks pass does the call insert the new account state and
  reserve its limits: whenever it then returns, the engine is the old one with the
  account registered at the new \<open>jsAccount\<close> and the limits reserved.
\<close>

theorem C6_enable_account_checks:
  assumes "srv (accts s a)" and "srv_js s = Some js"
    and "l = (case lim of None \<Rightarrow> dynamicAccountLimits js | Some l0 \<Rightarrow> l0)"
  shows "(\<forall>err. sufficientResources js (Some l) = Some err \<longrightarrow>
            Account_EnableJetStream ext a lim s = Ret (Some err, s)
            \<and> (err = ''insufficient memory resources available''
                \<or> err = ''insufficient storage resources available''))
     \<and> (sufficientResources js (Some l) = None \<and> accounts js a \<noteq> None \<longrightarrow>
            Account_EnableJetStream ext a lim s
              = Ret (Some ''jetstream already enabled for account'', s))
     \<and> (\<forall>e s'. sufficientResources js (Some l) = None \<and> accounts js a = None
            \<and> Account_EnableJetStream ext a lim s = Ret (e, s') \<longrightarrow>
            srv_js s' = Some (reserveResources (Some l)
                                (js\<lparr>accounts := (accounts js)(a \<mapsto> next_jsa s)\<rparr>))
            \<and> account (jsas s' (next_jsa s)) = a
            \<and> limits (jsas s' (next_jsa s)) = l)"
proof (intro conjI allI impI)
  fix err assume "sufficientResources js (Some l) = Some err"
  then show "Account_EnableJetStream ext a lim s = Ret (Some err, s)"
    by (rule Account_EnableJetStream_refused(1) [OF assms])
next
  fix err assume "sufficientResources js (Some l) = Some err"
  then show "err = ''insufficient memory resources available''
                \<or> err = ''insufficient storage resources available''"
    by (auto simp: sufficientResources_def split: if_splits)
next
  assume "sufficientResources js (Some l) = None \<and> accounts js a \<noteq> None"
  then show "Account_EnableJetStream ext a lim s
              = Ret (Some ''jetstream already enabled for account'', s)"
    using Account_EnableJetStream_refused(2) [OF assms] by blast
next
  fix e s'
  assume h: "sufficientResources js (Some l) = None \<and> accounts js a = None
            \<and> Account_EnableJetStream ext a lim s = Ret (e, s')"
  then have *: "sufficientResources js (Some l) = None" "accounts js a = None"
     "Account_EnableJetStream ext a lim s = Ret (e, s')" by auto
  from Account_EnableJetStream_admitted [OF assms *]
  show "srv_js s' = Some (reserveResources (Some l)
                                (js\<lparr>accounts := (accounts js)(a \<mapsto> next_jsa s)\<rparr>))"
    and "account (jsas s' (next_jsa s)) = a"
    and "limits (jsas s' (next_jsa s)) = l"
    by simp_all
qed

theorem C6_enable_account_checks_witness:
  "Account_EnableJetStream quietExt 2 (Some limits600) accountServer
       = Ret (Some ''insufficient memory resources available'', accountServer)
   \<and> Account_EnableJetStream quietExt 1
        (Some \<lparr>MaxMemory = 1024, MaxStore = 0, MaxMsgSets = 0, MaxObservables = 0\<rparr>) accountServer
       = Ret (Some ''jetstream already enabled for account'', accountServer)
   \<and> Account_EnableJetStream quietExt 1 (Some limits600) engineServer = Ret (None, accountServer)
   \<and> srv_js accountServer
       = Some (reserveResources (Some limits600)
           (\<lparr>config = \<lparr>cfg_MaxMemory = 1073741824, cfg_MaxStore = 1073741824, cfg_StoreDir = ''/js''\<rparr>,
             accounts = Map.empty, memReserved = 0, storeReserved = 0\<rparr>
              \<lparr>accounts := [1 \<mapsto> next_jsa engineServer]\<rparr>))"
proof -
  let ?jsA = "\<lparr>config = \<lparr>cfg_MaxMemory = 1073741824, cfg_MaxStore = 1073741824, cfg_StoreDir = ''/js''\<rparr>,
           accounts = [1 \<mapsto> 0], memReserved = 629145600, storeReserved = (0::int64)\<rparr>"
  let ?js0 = "\<lparr>config = \<lparr>cfg_MaxMemory = 1073741824, cfg_MaxStore = 1073741824, cfg_StoreDir = ''/js''\<rparr>,
           accounts = Map.empty :: acct \<rightharpoonup> jsa_ref, memReserved = 0, storeReserved = (0::int64)\<rparr>"
  let ?small = "\<lparr>MaxMemory = 1024, MaxStore = 0, MaxMsgSets = 0, MaxObservables = (0::go_int)\<rparr>"
  have full: "sufficientResources ?jsA (Some limits600) = Some ''insufficient memory resources available''"
    by (simp add: sufficientResources_def limits600_def signed_cmp)
  have fits: "sufficientResources ?jsA (Some ?small) = None"
    by (simp add: sufficientResources_def signed_cmp)
  have fits0: "sufficientResources ?js0 (Some limits600) = None"
    by (simp add: sufficientResources_def limits600_def signed_cmp)
  have reg: "srv (accts accountServer 2)" "srv (accts accountServer 1)" "srv (accts engineServer 1)"
    by (simp_all add: accountServer_sel engineServer_sel)
  have A: "Account_EnableJetStream quietExt 2 (Some limits600) accountServer
       = Ret (Some ''insufficient memory resources available'', accountServer)"
    using C6_enable_account_checks [where s = accountServer and a = 2 and js = ?jsA and l = limits600
                and lim = "Some limits600" and ext = quietExt] full reg
    by (simp add: accountServer_sel)
  have B: "Account_EnableJetStream quietExt 1 (Some ?small) accountServer
       = Ret (Some ''jetstream already enabled for account'', accountServer)"
    using C6_enable_account_checks [where s = accountServer and a = 1 and js = ?jsA and l = ?small
                and lim = "Some ?small" and ext = quietExt] fits reg
    by (simp add: accountServer_sel)
  have C: "srv_js accountServer
       = Some (reserveResources (Some limits600) (?js0\<lparr>accounts := [1 \<mapsto> next_jsa engineServer]\<rparr>))"
    using C6_enable_account_checks [where s = engineServer and a = 1 and js = ?js0 and l = limits600
                and lim = "Some limits600" and ext = quietExt] fits0 reg accountServer_reached
    by (simp add: engineServer_sel)
  from A B C accountServer_reached show ?thesis by simp
qed

section \<open>Updating the limits of an account\<close>

text \<open>
  C4. For an enabled account, \<open>UpdateJetStreamLimits\<close> does what the spec's procedure does:
  it computes the componentwise difference between the new and the current limits, runs
  the sufficiency check on it, and only then releases the old limits and reserves the new
  ones and stores the new limits in the account. When the check fails the call returns
  its error and the state is exactly the state before the call.
\<close>

theorem C4_update_limits_checks_first:
  assumes "srv (accts s a)" and "srv_js s = Some js" and "accounts js a = Some r"
    and "new = (case lim of None \<Rightarrow> dynamicAccountLimits js | Some l0 \<Rightarrow> l0)"
  shows "Account_UpdateJetStreamLimits a lim s =
           (case updateLimits_spec js (limits (jsas s r)) new of
              Inl err \<Rightarrow> (Some err, s)
            | Inr js' \<Rightarrow> (None, s\<lparr>srv_js := Some js',
                                  jsas := (jsas s)(r := (jsas s r)\<lparr>limits := new\<rparr>)\<rparr>))"
proof -
  have "sufficientResources js (Some (diffCheckedLimits old new))
        = sufficientResources js (Some (diffLimits_spec old new))" for old
    by (simp add: sufficientResources_def diffCheckedLimits_def diffLimits_spec_def)
  with assms show ?thesis
    by (simp add: Account_UpdateJetStreamLimits_def updateLimits_spec_def lookupAccount_def Let_def
          split: option.split)
qed

theorem C4_update_limits_checks_first_witness:
  "Account_UpdateJetStreamLimits 1
      (Some \<lparr>MaxMemory = 2147483648, MaxStore = 0, MaxMsgSets = 0, MaxObservables = 0\<rparr>) accountServer
     = (Some ''insufficient memory resources available'', accountServer)
   \<and> Account_UpdateJetStreamLimits 1
      (Some \<lparr>MaxMemory = 1024, MaxStore = 0, MaxMsgSets = 0, MaxObservables = 0\<rparr>) accountServer
     = (None, accountServer
          \<lparr>srv_js := Some \<lparr>config = \<lparr>cfg_MaxMemory = 1073741824, cfg_MaxStore = 1073741824,
                                       cfg_StoreDir = ''/js''\<rparr>,
                             accounts = [1 \<mapsto> 0], memReserved = 1024, storeReserved = 0\<rparr>,
           jsas := (jsas accountServer)
                     (0 := (jsas accountServer 0)
                        \<lparr>limits := \<lparr>MaxMemory = 1024, MaxStore = 0, MaxMsgSets = 0,
                                    MaxObservables = 0\<rparr>\<rparr>)\<rparr>)"
proof -
  let ?jsA = "\<lparr>config = \<lparr>cfg_MaxMemory = 1073741824, cfg_MaxStore = 1073741824, cfg_StoreDir = ''/js''\<rparr>,
           accounts = [1 \<mapsto> 0], memReserved = 629145600, storeReserved = (0::int64)\<rparr>"
  let ?big = "\<lparr>MaxMemory = 2147483648, MaxStore = 0, MaxMsgSets = 0, MaxObservables = (0::go_int)\<rparr>"
  let ?small = "\<lparr>MaxMemory = 1024, MaxStore = 0, MaxMsgSets = 0, MaxObservables = (0::go_int)\<rparr>"
  have big: "updateLimits_spec ?jsA limits600 ?big = Inl ''insufficient memory resources available''"
    by (simp add: updateLimits_spec_def sufficientResources_def diffLimits_spec_def limits600_def signed_cmp)
  have small: "updateLimits_spec ?jsA limits600 ?small = Inr (?jsA\<lparr>memReserved := 1024\<rparr>)"
    by (simp add: updateLimits_spec_def sufficientResources_def diffLimits_spec_def limits600_def
         reserveResources_def releaseResources_def signed_cmp)
  have A: "Account_UpdateJetStreamLimits 1 (Some ?big) accountServer
     = (Some ''insufficient memory resources available'', accountServer)"
    using C4_update_limits_checks_first [where s = accountServer and a = 1 and js = ?jsA and r = 0 and new = ?big
               and lim = "Some ?big"] big
    by (simp add: accountServer_sel)
  have B: "Account_UpdateJetStreamLimits 1 (Some ?small) accountServer
     = (None, accountServer\<lparr>srv_js := Some (?jsA\<lparr>memReserved := 1024\<rparr>),
           jsas := (jsas accountServer)(0 := (jsas accountServer 0)\<lparr>limits := ?small\<rparr>)\<rparr>)"
    using C4_update_limits_checks_first [where s = accountServer and a = 1 and js = ?jsA and r = 0 and new = ?small
               and lim = "Some ?small"] small
    by (simp add: accountServer_sel)
  from A B show ?thesis by simp
qed

text \<open>Whatever the error, a failed update leaves the state as it was.\<close>

lemma UpdateJetStreamLimits_error_unchanged:
  "fst (Account_UpdateJetStreamLimits a lim s) = Some err \<Longrightarrow>
     snd (Account_UpdateJetStreamLimits a lim s) = s"
  by (auto simp: Account_UpdateJetStreamLimits_def Let_def split: option.splits if_splits)

section \<open>The configuration of the engine\<close>

lemma sint_word_of_int_64:
  "- (2 ^ 63) \<le> k \<Longrightarrow> k < 2 ^ 63 \<Longrightarrow> sint (word_of_int k :: 64 word) = k"
  unfolding sint_sbintrunc' by (rule signed_take_bit_int_eq_self) simp_all

text \<open>Three quarters of a positive amount of memory, without overflow.\<close>

lemma sint_three_quarters:
  fixes m :: int64
  assumes "0 < sint m"
  shows "sint (int64_quo m 4 * 3) = sint m div 4 * 3"
proof -
  define k where "k = sint m div 4 * 3"
  have up: "sint m < 2 ^ 63"
    using sint_lt [of m] by simp
  have q: "sint m sdiv 4 = sint m div 4"
    using assms by (simp add: signed_divide_int_def sgn_if)
  have "int64_quo m 4 * 3 = (word_of_int k :: 64 word)"
    by (simp add: int64_quo_def q k_def)
  moreover have "sint (word_of_int k :: 64 word) = k"
    using assms up by (intro sint_word_of_int_64) (simp_all add: k_def)
  ultimately show ?thesis by (simp add: k_def)
qed

lemma addServiceExports_world:
  "addServiceExports ext sacc xs s = (e, s') \<Longrightarrow>
     srv_js s' = srv_js s \<and> accts s' = accts s \<and> jsas s' = jsas s \<and> next_jsa s' = next_jsa s
     \<and> standAloneMode s' = standAloneMode s \<and> outbox s' = outbox s"
proof (induction xs arbitrary: s)
  case Nil
  then show ?case by simp
next
  case (Cons x xs)
  then show ?case
    by (auto simp: Let_def split: prod.splits option.splits)
qed

lemma Account_EnableJetStream_config:
  assumes "Account_EnableJetStream ext a lim s = Ret (e, s')"
  shows "map_option config (srv_js s') = map_option config (srv_js s)"
proof (cases "srv (accts s a) \<and> srv_js s \<noteq> None")
  case False
  with assms show ?thesis
    by (auto simp: Account_EnableJetStream_def split: option.splits if_splits)
next
  case True
  then obtain js where js: "srv_js s = Some js" and reg: "srv (accts s a)" by auto
  define l where "l = (case lim of None \<Rightarrow> dynamicAccountLimits js | Some l0 \<Rightarrow> l0)"
  show ?thesis
  proof (cases "sufficientResources js (Some l) = None \<and> accounts js a = None")
    case False
    then consider err where "sufficientResources js (Some l) = Some err"
      | "sufficientResources js (Some l) = None" "accounts js a \<noteq> None" by auto
    then have "s' = s"
      using Account_EnableJetStream_refused [OF reg js l_def] assms by cases auto
    then show ?thesis by simp
  next
    case True
    with Account_EnableJetStream_admitted [OF reg js l_def _ _ assms] js
    show ?thesis by (simp add: reserveResources_def Let_def)
  qed
qed

lemma Server_EnableJetStream_config:
  assumes "standAloneMode s" and "srv_js s = None"
    and "Server_EnableJetStream ext cfgp s = Ret (e, s')"
  shows "map_option config (srv_js s') = Some (effectiveConfig ext cfgp)"
  using assms
  by (auto simp: Server_EnableJetStream_def Let_def
        split: prod.splits option.splits result.splits if_splits
        dest!: addServiceExports_world Account_EnableJetStream_config)

lemma effectiveConfig_dynamic:
  assumes "cfgp = None
     \<or> (\<exists>c. cfgp = Some c \<and> (sint (cfg_MaxMemory c) \<le> 0 \<or> sint (cfg_MaxStore c) \<le> 0))"
  shows "sint (cfg_MaxStore (effectiveConfig ext cfgp)) = 1024 ^ 4"
    and "0 < sint (x_Memory ext) \<Longrightarrow>
           sint (cfg_MaxMemory (effectiveConfig ext cfgp)) = sint (x_Memory ext) div 4 * 3"
    and "sint (x_Memory ext) \<le> 0 \<Longrightarrow>
           sint (cfg_MaxMemory (effectiveConfig ext cfgp)) = 1024 ^ 2 * 256"
    and "cfgp = None \<or> (\<exists>c. cfgp = Some c \<and> cfg_StoreDir c = []) \<Longrightarrow>
           cfg_StoreDir (effectiveConfig ext cfgp) = x_Join ext (x_TempDir ext) ''jetstream''"
  using assms
  by (auto simp: effectiveConfig_def dynJetStreamConfig_def Let_def signed_cmp
        JetStreamMaxStoreDefault_def JetStreamMaxMemDefault_def JetStreamStoreDir_def
        sint_three_quarters)

text \<open>
  Once the two entry checks have passed, the call installs the engine with the effective
  configuration and then either returns, with that configuration still in place, or
  panics; it can panic only inside the enablement of the global account, which it runs
  on a state that holds the new engine.
\<close>

lemma Server_EnableJetStream_outcome:
  assumes "standAloneMode s" and "srv_js s = None"
  shows "(\<exists>e s' js. Server_EnableJetStream ext cfgp s = Ret (e, s')
            \<and> srv_js s' = Some js \<and> config js = effectiveConfig ext cfgp)
       \<or> (\<exists>s6. Server_EnableJetStream ext cfgp s = Panic
            \<and> x_globalAccountOnly ext (world s6)
            \<and> srv_js s6 = Some \<lparr>config = effectiveConfig ext cfgp, accounts = Map.empty,
                                  memReserved = 0, storeReserved = 0\<rparr>
            \<and> Account_EnableJetStream ext (x_GlobalAccount ext) None s6 = Panic)"
proof (cases "Server_EnableJetStream ext cfgp s")
  case (Ret p)
  obtain e s' where p: "p = (e, s')" by (cases p)
  from Server_EnableJetStream_config [OF assms, of ext cfgp e s'] Ret p
  obtain js where "srv_js s' = Some js" "config js = effectiveConfig ext cfgp"
    by (cases "srv_js s'") auto
  with Ret p show ?thesis by blast
next
  case Panic
  then have "\<exists>s6. x_globalAccountOnly ext (world s6)
            \<and> srv_js s6 = Some \<lparr>config = effectiveConfig ext cfgp, accounts = Map.empty,
                                  memReserved = 0, storeReserved = 0\<rparr>
            \<and> Account_EnableJetStream ext (x_GlobalAccount ext) None s6 = Panic"
    using assms
    by (auto simp: Server_EnableJetStream_def Let_def
          split: prod.splits option.splits result.splits if_splits
          dest!: addServiceExports_world
          intro!: exI [where x = "logf NoticeL ''----------------------------------------'' _"])
  with Panic show ?thesis by blast
qed


text \<open>
  C7. When \<open>Server.EnableJetStream\<close> is given a nil config, or a config whose \<open>MaxMemory\<close> or
  \<open>MaxStore\<close> is zero or negative, the effective configuration has the dynamic defaults:
  \<open>MaxStore\<close> is 1 TiB (\<open>1024^4\<close> bytes); \<open>MaxMemory\<close> is three quarters of the detected
  system memory (a quarter, rounded down to whole bytes, times three, so exactly three
  quarters when the amount is a multiple of 4) when the detection gives a positive amount,
  and 256 MiB (\<open>1024^2 * 256\<close> bytes) when it does not; and \<open>StoreDir\<close> is \<open><tmp>/jetstream\<close>
  when no directory was given. On a stand-alone server without an engine the call
  installs an engine with this configuration: it returns with the engine holding it, or
  it panics in the enablement of the global account, started on the new engine.
\<close>

theorem C7_dynamic_defaults:
  assumes "standAloneMode s" and "srv_js s = None"
    and "cfgp = None
     \<or> (\<exists>c. cfgp = Some c \<and> (sint (cfg_MaxMemory c) \<le> 0 \<or> sint (cfg_MaxStore c) \<le> 0))"
  shows "sint (cfg_MaxStore (effectiveConfig ext cfgp)) = 1024 ^ 4
     \<and> (0 < sint (x_Memory ext) \<longrightarrow>
           sint (cfg_MaxMemory (effectiveConfig ext cfgp)) = sint (x_Memory ext) div 4 * 3)
     \<and> (0 < sint (x_Memory ext) \<and> 4 dvd sint (x_Memory ext) \<longrightarrow>
           4 * sint (cfg_MaxMemory (effectiveConfig ext cfgp)) = 3 * sint (x_Memory ext))
     \<and> (sint (x_Memory ext) \<le> 0 \<longrightarrow>
           sint (cfg_MaxMemory (effectiveConfig ext cfgp)) = 1024 ^ 2 * 256)
     \<and> (cfgp = None \<or> (\<exists>c. cfgp = Some c \<and> cfg_StoreDir c = []) \<longrightarrow>
           cfg_StoreDir (effectiveConfig ext cfgp) = x_Join ext (x_TempDir ext) ''jetstream'')
     \<and> ((\<exists>e s' js. Server_EnableJetStream ext cfgp s = Ret (e, s')
              \<and> srv_js s' = Some js \<and> config js = effectiveConfig ext cfgp)
          \<or> (\<exists>s6. Server_EnableJetStream ext cfgp s = Panic
              \<and> x_globalAccountOnly ext (world s6)
              \<and> srv_js s6 = Some \<lparr>config = effectiveConfig ext cfgp, accounts = Map.empty,
                                    memReserved = 0, storeReserved = 0\<rparr>
              \<and> Account_EnableJetStream ext (x_GlobalAccount ext) None s6 = Panic))"
proof -
  note d = effectiveConfig_dynamic [OF assms(3), of ext]
  have exact: "4 * sint (cfg_MaxMemory (effectiveConfig ext cfgp)) = 3 * sint (x_Memory ext)"
    if "0 < sint (x_Memory ext)" and "4 dvd sint (x_Memory ext)"
    using d(2) [OF that(1)] that(2) by (auto elim!: dvdE)
  show ?thesis
    using d(1) d(2) d(3) d(4) exact Server_EnableJetStream_outcome [OF assms(1,2), of ext cfgp]
    by blast
qed

theorem C7_dynamic_defaults_witness:
  "standAloneMode blankServer \<and> srv_js blankServer = None
   \<and> (\<exists>e s' js. Server_EnableJetStream quietExt None blankServer = Ret (e, s')
         \<and> srv_js s' = Some js
         \<and> sint (cfg_MaxStore (config js)) = 1099511627776
         \<and> sint (cfg_MaxMemory (config js)) = 6442450944
         \<and> cfg_StoreDir (config js) = ''/tmp/jetstream'')
   \<and> (\<exists>e s' js. Server_EnableJetStream quietExt
           (Some \<lparr>cfg_MaxMemory = 0, cfg_MaxStore = 1024, cfg_StoreDir = []\<rparr>) blankServer = Ret (e, s')
         \<and> srv_js s' = Some js
         \<and> sint (cfg_MaxStore (config js)) = 1099511627776
         \<and> sint (cfg_MaxMemory (config js)) = 6442450944
         \<and> cfg_StoreDir (config js) = ''/tmp/jetstream'')
   \<and> (\<exists>e s' js. Server_EnableJetStream quietExt
           (Some \<lparr>cfg_MaxMemory = 1024, cfg_MaxStore = - 1, cfg_StoreDir = ''/data''\<rparr>) blankServer = Ret (e, s')
         \<and> srv_js s' = Some js
         \<and> sint (cfg_MaxStore (config js)) = 1099511627776
         \<and> sint (cfg_MaxMemory (config js)) = 6442450944)"
proof -
  have alone: "standAloneMode blankServer" and off: "srv_js blankServer = None"
    by (simp_all add: blankServer_def)
  have nil: "\<exists>e s' js. Server_EnableJetStream quietExt None blankServer = Ret (e, s')
         \<and> srv_js s' = Some js
         \<and> sint (cfg_MaxStore (config js)) = 1099511627776
         \<and> sint (cfg_MaxMemory (config js)) = 6442450944
         \<and> cfg_StoreDir (config js) = ''/tmp/jetstream''"
    using C7_dynamic_defaults [OF alone off, where cfgp = None and ext = quietExt]
    by (auto simp: quietExt_sel)
  have zero: "\<exists>e s' js. Server_EnableJetStream quietExt
           (Some \<lparr>cfg_MaxMemory = 0, cfg_MaxStore = 1024, cfg_StoreDir = []\<rparr>) blankServer = Ret (e, s')
         \<and> srv_js s' = Some js
         \<and> sint (cfg_MaxStore (config js)) = 1099511627776
         \<and> sint (cfg_MaxMemory (config js)) = 6442450944
         \<and> cfg_StoreDir (config js) = ''/tmp/jetstream''"
    using C7_dynamic_defaults [OF alone off, where ext = quietExt
                 and cfgp = "Some \<lparr>cfg_MaxMemory = 0, cfg_MaxStore = 1024, cfg_StoreDir = []\<rparr>"]
    by (auto simp: quietExt_sel)
  have neg: "\<exists>e s' js. Server_EnableJetStream quietExt
           (Some \<lparr>cfg_MaxMemory = 1024, cfg_MaxStore = - 1, cfg_StoreDir = ''/data''\<rparr>) blankServer = Ret (e, s')
         \<and> srv_js s' = Some js
         \<and> sint (cfg_MaxStore (config js)) = 1099511627776
         \<and> sint (cfg_MaxMemory (config js)) = 6442450944"
    using C7_dynamic_defaults [OF alone off, where ext = quietExt
                 and cfgp = "Some \<lparr>cfg_MaxMemory = 1024, cfg_MaxStore = - 1, cfg_StoreDir = ''/data''\<rparr>"]
    by (auto simp: quietExt_sel)
  from alone off nil zero neg show ?thesis by blast
qed

section \<open>The ledger under account operations\<close>

lemma reserveResources_sel [simp]:
  "memReserved (reserveResources (Some l) js) = memReserved js + positive_part (MaxMemory l)"
  "storeReserved (reserveResources (Some l) js) = storeReserved js + positive_part (MaxStore l)"
  "accounts (reserveResources (Some l) js) = accounts js"
  "config (reserveResources (Some l) js) = config js"
  by (simp_all add: reserveResources_def positive_part_def Let_def)

lemma releaseResources_sel [simp]:
  "memReserved (releaseResources (Some l) js) = memReserved js - positive_part (MaxMemory l)"
  "storeReserved (releaseResources (Some l) js) = storeReserved js - positive_part (MaxStore l)"
  "accounts (releaseResources (Some l) js) = accounts js"
  "config (releaseResources (Some l) js) = config js"
  by (simp_all add: releaseResources_def positive_part_def Let_def)

lemma engine_new_inv: "engine_new s \<Longrightarrow> ledger_inv s"
  by (auto simp: engine_new_def ledger_inv_def registry_wf_def ledger_sums_positive_def
        split: option.splits)

lemma enable_preserves:
  assumes ret: "Account_EnableJetStream ext a lim s = Ret (e, s')" and inv: "ledger_inv s"
  shows "ledger_inv s'"
proof (cases "srv (accts s a) \<and> srv_js s \<noteq> None")
  case False
  with ret have "s' = s"
    by (auto simp: Account_EnableJetStream_def split: option.splits if_splits)
  with inv show ?thesis by simp
next
  case True
  then obtain js where js: "srv_js s = Some js" and reg: "srv (accts s a)" by auto
  define l where "l = (case lim of None \<Rightarrow> dynamicAccountLimits js | Some l0 \<Rightarrow> l0)"
  show ?thesis
  proof (cases "sufficientResources js (Some l) = None \<and> accounts js a = None")
    case False
    then consider err where "sufficientResources js (Some l) = Some err"
      | "sufficientResources js (Some l) = None" "accounts js a \<noteq> None" by auto
    then have "s' = s"
      using Account_EnableJetStream_refused [OF reg js l_def] ret by cases auto
    with inv show ?thesis by simp
  next
    case True
    define r where "r = next_jsa s"
    define js' where "js' = reserveResources (Some l) (js\<lparr>accounts := (accounts js)(a \<mapsto> r)\<rparr>)"
    from True have fresh: "accounts js a = None" by simp
    from Account_EnableJetStream_admitted [OF reg js l_def _ _ ret] True
    have js': "srv_js s' = Some js'" and nx: "next_jsa s' = Suc r"
      and lim: "limits (jsas s' r) = l" and acc: "account (jsas s' r) = a"
      and other: "\<And>q. q \<noteq> r \<Longrightarrow> jsas s' q = jsas s q"
      by (simp_all add: js'_def r_def)
    from inv js have fin: "finite (dom (accounts js))"
      and wf: "\<And>b q. accounts js b = Some q \<Longrightarrow> q < r \<and> account (jsas s q) = b"
      and mem: "memReserved js = (\<Sum>b \<in> dom (accounts js). positive_part (MaxMemory (limits_of s js b)))"
      and sto: "storeReserved js = (\<Sum>b \<in> dom (accounts js). positive_part (MaxStore (limits_of s js b)))"
      by (auto simp: ledger_inv_def registry_wf_def ledger_sums_positive_def r_def)
    have dom': "dom (accounts js') = insert a (dom (accounts js))"
      by (simp add: js'_def)
    have notin: "a \<notin> dom (accounts js)"
      using fresh by auto
    have lim_a: "limits_of s' js' a = l"
      by (simp add: limits_of_def js'_def lim)
    have lim_b: "limits_of s' js' b = limits_of s js b" if "b \<in> dom (accounts js)" for b
    proof -
      from that obtain q where q: "accounts js b = Some q" by auto
      with notin have "b \<noteq> a" by auto
      moreover from wf [OF q] have "q \<noteq> r" by simp
      ultimately show ?thesis
        using q by (simp add: limits_of_def js'_def other)
    qed
    have wf': "registry_wf s'"
      unfolding registry_wf_def using js' fin dom'
    proof (simp, intro allI impI)
      fix b q assume "accounts js' b = Some q"
      then have "b = a \<and> q = r \<or> b \<noteq> a \<and> accounts js b = Some q"
        by (auto simp: js'_def split: if_splits)
      then show "q < next_jsa s' \<and> account (jsas s' q) = b"
      proof
        assume "b = a \<and> q = r"
        then show ?thesis by (simp add: nx acc)
      next
        assume h: "b \<noteq> a \<and> accounts js b = Some q"
        from wf [of b q] h have "q < r" "account (jsas s q) = b" by simp_all
        then show ?thesis by (simp add: nx other)
      qed
    qed
    have "memReserved js' = (\<Sum>b \<in> dom (accounts js'). positive_part (MaxMemory (limits_of s' js' b)))"
      using fin notin by (simp add: dom' lim_a lim_b mem) (simp add: js'_def mem)
    moreover
    have "storeReserved js' = (\<Sum>b \<in> dom (accounts js'). positive_part (MaxStore (limits_of s' js' b)))"
      using fin notin by (simp add: dom' lim_a lim_b sto) (simp add: js'_def sto)
    ultimately show ?thesis
      using wf' js' by (simp add: ledger_inv_def ledger_sums_positive_def)
  qed
qed


lemma update_preserves:
  assumes inv: "ledger_inv s"
  shows "ledger_inv (snd (Account_UpdateJetStreamLimits a lim s))"
proof (cases "srv (accts s a)")
  case False
  with inv show ?thesis by (simp add: Account_UpdateJetStreamLimits_def)
next
  case reg: True
  show ?thesis
  proof (cases "srv_js s")
    case None
    with inv reg show ?thesis by (simp add: Account_UpdateJetStreamLimits_def)
  next
    case (Some js)
    show ?thesis
    proof (cases "accounts js a")
      case None
      with inv reg Some show ?thesis
        by (simp add: Account_UpdateJetStreamLimits_def lookupAccount_def)
    next
      case (Some r)
      note js = \<open>srv_js s = Some js\<close> and r = Some
      define l where "l = (case lim of None \<Rightarrow> dynamicAccountLimits js | Some l0 \<Rightarrow> l0)"
      define old where "old = limits (jsas s r)"
      show ?thesis
      proof (cases "sufficientResources js (Some (diffCheckedLimits old l))")
        case (Some err)
        with inv reg js r show ?thesis
          by (simp add: Account_UpdateJetStreamLimits_def lookupAccount_def Let_def l_def old_def)
      next
        case None
        define js' where "js' = reserveResources (Some l) (releaseResources (Some old) js)"
        define s' where "s' = s\<lparr>srv_js := Some js', jsas := (jsas s)(r := (jsas s r)\<lparr>limits := l\<rparr>)\<rparr>"
        from None reg js r have res: "snd (Account_UpdateJetStreamLimits a lim s) = s'"
          by (simp add: Account_UpdateJetStreamLimits_def lookupAccount_def Let_def l_def old_def
                js'_def s'_def)
        from inv js have fin: "finite (dom (accounts js))"
          and wf: "\<And>b q. accounts js b = Some q \<Longrightarrow> q < next_jsa s \<and> account (jsas s q) = b"
          and mem: "memReserved js = (\<Sum>b \<in> dom (accounts js). positive_part (MaxMemory (limits_of s js b)))"
          and sto: "storeReserved js = (\<Sum>b \<in> dom (accounts js). positive_part (MaxStore (limits_of s js b)))"
          by (auto simp: ledger_inv_def registry_wf_def ledger_sums_positive_def)
        have ain: "a \<in> dom (accounts js)" using r by auto
        have acc': "accounts js' = accounts js" by (simp add: js'_def)
        have lim_a: "limits_of s' js' a = l" "limits_of s js a = old"
          using r by (simp_all add: limits_of_def acc' s'_def old_def)
        have lim_b: "limits_of s' js' b = limits_of s js b" if "b \<in> dom (accounts js) - {a}" for b
        proof -
          from that obtain q where q: "accounts js b = Some q" and ne: "b \<noteq> a" by auto
          from wf [OF q] wf [OF r] ne have "q \<noteq> r" by auto
          then show ?thesis using q by (simp add: limits_of_def acc' s'_def)
        qed
        have wf': "registry_wf s'"
          using fin wf by (auto simp: registry_wf_def s'_def acc')
        have m: "memReserved js' = (\<Sum>b \<in> dom (accounts js'). positive_part (MaxMemory (limits_of s' js' b)))"
        proof -
          have "(\<Sum>b \<in> dom (accounts js). positive_part (MaxMemory (limits_of s' js' b)))
                = positive_part (MaxMemory l)
                  + (\<Sum>b \<in> dom (accounts js) - {a}. positive_part (MaxMemory (limits_of s js b)))"
            by (simp add: sum.remove [OF fin ain] lim_a lim_b)
          moreover have "memReserved js
                = positive_part (MaxMemory old)
                  + (\<Sum>b \<in> dom (accounts js) - {a}. positive_part (MaxMemory (limits_of s js b)))"
            unfolding mem by (simp add: sum.remove [OF fin ain] lim_a)
          moreover have "memReserved js' = memReserved js - positive_part (MaxMemory old) + positive_part (MaxMemory l)"
            by (simp add: js'_def)
          ultimately show ?thesis by (simp add: acc')
        qed
        have st: "storeReserved js' = (\<Sum>b \<in> dom (accounts js'). positive_part (MaxStore (limits_of s' js' b)))"
        proof -
          have "(\<Sum>b \<in> dom (accounts js). positive_part (MaxStore (limits_of s' js' b)))
                = positive_part (MaxStore l)
                  + (\<Sum>b \<in> dom (accounts js) - {a}. positive_part (MaxStore (limits_of s js b)))"
            by (simp add: sum.remove [OF fin ain] lim_a lim_b)
          moreover have "storeReserved js
                = positive_part (MaxStore old)
                  + (\<Sum>b \<in> dom (accounts js) - {a}. positive_part (MaxStore (limits_of s js b)))"
            unfolding sto by (simp add: sum.remove [OF fin ain] lim_a)
          moreover have "storeReserved js' = storeReserved js - positive_part (MaxStore old) + positive_part (MaxStore l)"
            by (simp add: js'_def)
          ultimately show ?thesis by (simp add: acc')
        qed
        have "srv_js s' = Some js'" by (simp add: s'_def)
        with wf' m st show ?thesis
          unfolding res by (simp add: ledger_inv_def ledger_sums_positive_def)
      qed
    qed
  qed
qed

lemma disable_preserves:
  assumes inv: "ledger_inv s"
  shows "ledger_inv (snd (Account_DisableJetStream ext a s))"
proof -
  define s0 where "s0 = s\<lparr>accts := (accts s)(a := (accts s a)\<lparr>acc_js := None\<rparr>)\<rparr>"
  have lim0: "limits_of (s0\<lparr>world := w\<rparr>) = limits_of s" for w
    by (simp add: limits_of_def s0_def fun_eq_iff split: option.split)
  have inv0: "ledger_inv (s0\<lparr>world := w\<rparr>)" for w
    using inv unfolding ledger_inv_def registry_wf_def ledger_sums_positive_def lim0
    by (auto simp: s0_def split: option.splits)
  from inv0 [of "world s0"] have inv0': "ledger_inv s0" by simp
  show ?thesis
  proof (cases "srv (accts s a) \<and> srv_js s \<noteq> None")
    case False
    then have "snd (Account_DisableJetStream ext a s) = s0"
      by (auto simp: Account_DisableJetStream_def Let_def s0_def split: option.splits)
    with inv0' show ?thesis by simp
  next
    case True
    then obtain js where js: "srv_js s = Some js" and reg: "srv (accts s a)" by auto
    define s1 where "s1 = s0\<lparr>world := removeServiceImports ext a allJsExports (world s0)\<rparr>"
    have s1: "srv_js s1 = Some js" "jsas s1 = jsas s" "next_jsa s1 = next_jsa s"
      by (simp_all add: s1_def s0_def js)
    have res: "Account_DisableJetStream ext a s = disableJetStream ext js (accounts js a) s1"
      using reg js by (simp add: Account_DisableJetStream_def Let_def lookupAccount_def s1_def s0_def)
    show ?thesis
    proof (cases "accounts js a")
      case None
      then show ?thesis
        unfolding res using inv0 [of "removeServiceImports ext a allJsExports (world s0)"]
        by (simp add: disableJetStream_def s1_def)
    next
      case (Some r)
      from inv js have fin: "finite (dom (accounts js))"
        and wf: "\<And>b q. accounts js b = Some q \<Longrightarrow> q < next_jsa s \<and> account (jsas s q) = b"
        and mem: "memReserved js = (\<Sum>b \<in> dom (accounts js). positive_part (MaxMemory (limits_of s js b)))"
        and sto: "storeReserved js = (\<Sum>b \<in> dom (accounts js). positive_part (MaxStore (limits_of s js b)))"
        by (auto simp: ledger_inv_def registry_wf_def ledger_sums_positive_def)
      from wf [OF Some] have owner: "account (jsas s r) = a" by simp
      define js' where "js' = releaseResources (Some (limits (jsas s r))) (js\<lparr>accounts := (accounts js)(a := None)\<rparr>)"
      define s' where "s' = s1\<lparr>srv_js := Some js', world := x_stopMsgSets ext (msgSets (jsas s r)) (world s1)\<rparr>"
      have res': "snd (Account_DisableJetStream ext a s) = s'"
        unfolding res using Some owner
        by (simp add: disableJetStream_def Let_def s1 js'_def s'_def)
      have ain: "a \<in> dom (accounts js)" using Some by auto
      have dom': "dom (accounts js') = dom (accounts js) - {a}"
        by (auto simp: js'_def)
      have lim_a: "limits_of s js a = limits (jsas s r)"
        using Some by (simp add: limits_of_def)
      have lim_b: "limits_of s' js' b = limits_of s js b" if "b \<in> dom (accounts js) - {a}" for b
        using that by (auto simp: limits_of_def js'_def s'_def s1)
      have wf': "registry_wf s'"
        using fin wf by (auto simp: registry_wf_def s'_def s1 js'_def split: if_splits)
      have m: "memReserved js' = (\<Sum>b \<in> dom (accounts js'). positive_part (MaxMemory (limits_of s' js' b)))"
      proof -
        have "memReserved js
                = positive_part (MaxMemory (limits (jsas s r)))
                  + (\<Sum>b \<in> dom (accounts js) - {a}. positive_part (MaxMemory (limits_of s js b)))"
          unfolding mem by (simp add: sum.remove [OF fin ain] lim_a)
        moreover have "memReserved js' = memReserved js - positive_part (MaxMemory (limits (jsas s r)))"
          by (simp add: js'_def)
        ultimately show ?thesis by (simp add: dom' lim_b)
      qed
      have st: "storeReserved js' = (\<Sum>b \<in> dom (accounts js'). positive_part (MaxStore (limits_of s' js' b)))"
      proof -
        have "storeReserved js
                = positive_part (MaxStore (limits (jsas s r)))
                  + (\<Sum>b \<in> dom (accounts js) - {a}. positive_part (MaxStore (limits_of s js b)))"
          unfolding sto by (simp add: sum.remove [OF fin ain] lim_a)
        moreover have "storeReserved js' = storeReserved js - positive_part (MaxStore (limits (jsas s r)))"
          by (simp add: js'_def)
        ultimately show ?thesis by (simp add: dom' lim_b)
      qed
      have "srv_js s' = Some js'" by (simp add: s'_def)
      with wf' m st show ?thesis
        unfolding res' by (simp add: ledger_inv_def ledger_sums_positive_def)
    qed
  qed
qed

lemma apply_op_preserves:
  "ledger_inv s \<Longrightarrow> apply_op ext x s = Ret s' \<Longrightarrow> ledger_inv s'"
proof (cases x)
  case (Enable a lim)
  assume "ledger_inv s" "apply_op ext x s = Ret s'"
  with Enable show ?thesis
    by (auto split: result.splits dest: enable_preserves)
next
  case (UpdateLimits a lim)
  assume "ledger_inv s" "apply_op ext x s = Ret s'"
  with UpdateLimits update_preserves [of s a lim] show ?thesis by auto
next
  case (Disable a)
  assume "ledger_inv s" "apply_op ext x s = Ret s'"
  with Disable disable_preserves [of s ext a] show ?thesis by auto
qed

lemma run_ops_preserves:
  "ledger_inv s \<Longrightarrow> holds_after ledger_inv (run_ops ext xs s)"
proof (induction xs arbitrary: s)
  case Nil
  then show ?case by (simp add: holds_after_def)
next
  case (Cons x xs)
  show ?case
  proof (cases "apply_op ext x s")
    case Panic
    then show ?thesis by (simp add: holds_after_def)
  next
    case (Ret s')
    with Cons.prems have "ledger_inv s'" by (rule apply_op_preserves)
    from Cons.IH [OF this] Ret show ?thesis by simp
  qed
qed

text \<open>
  C3 (amended). From an engine with no account and nothing reserved, after any sequence of
  account enable, update-limits and disable calls that returns, \<open>memReserved\<close> is the sum,
  over the accounts in the registry, of the positive part of the account's
  \<open>limits.MaxMemory\<close> (the limit itself when it is positive, 0 otherwise), and
  \<open>storeReserved\<close> is the same sum over \<open>limits.MaxStore\<close>; the sums are those of \<open>int64\<close>.
\<close>

theorem C3_ledger_sums_positive_parts:
  assumes "engine_new s"
  shows "holds_after ledger_sums_positive (run_ops ext xs s)"
  using run_ops_preserves [OF engine_new_inv [OF assms], of ext xs]
  by (auto simp: holds_after_def ledger_inv_def split: result.splits)


text \<open>
  C3, as the claim states it, fails: after enabling one account with \<open>MaxMemory = -5\<close> the
  engine has reserved nothing, while the sum of the limits is \<open>-5\<close>.
\<close>

theorem C3_ledger_counterexample:
  "\<not> holds_after ledger_sums_limits
       (run_ops quietExt
          [Enable 1 (Some \<lparr>MaxMemory = - 5, MaxStore = 0, MaxMsgSets = - 1, MaxObservables = - 1\<rparr>)]
          engineServer)"
  by (simp add: holds_after_def ledger_sums_limits_def limits_of_def
        Account_EnableJetStream_def addServiceImports_ok quietExt_sel engineServer_sel
        sufficientResources_def reserveResources_def signed_cmp Let_def)

theorem C3_ledger_sums_positive_parts_witness:
  "engine_new engineServer
   \<and> run_ops quietExt
        [Enable 1 (Some limits600),
         Enable 2 (Some \<lparr>MaxMemory = - 5, MaxStore = 4096, MaxMsgSets = - 1, MaxObservables = - 1\<rparr>),
         UpdateLimits 1 (Some \<lparr>MaxMemory = 1024, MaxStore = 0, MaxMsgSets = 0, MaxObservables = 0\<rparr>),
         Disable 2] engineServer \<noteq> Panic
   \<and> holds_after ledger_sums_positive
        (run_ops quietExt
          [Enable 1 (Some limits600),
           Enable 2 (Some \<lparr>MaxMemory = - 5, MaxStore = 4096, MaxMsgSets = - 1, MaxObservables = - 1\<rparr>),
           UpdateLimits 1 (Some \<lparr>MaxMemory = 1024, MaxStore = 0, MaxMsgSets = 0, MaxObservables = 0\<rparr>),
           Disable 2] engineServer)"
proof -
  have new: "engine_new engineServer"
    by (simp add: engine_new_def engineServer_sel)
  have second: "\<exists>s2. Account_EnableJetStream quietExt 2
         (Some \<lparr>MaxMemory = - 5, MaxStore = 4096, MaxMsgSets = - 1, MaxObservables = - 1\<rparr>)
         accountServer = Ret (None, s2)"
    by (simp add: Account_EnableJetStream_def addServiceImports_ok quietExt_sel accountServer_sel
        sufficientResources_def signed_cmp Let_def)
  have runs: "run_ops quietExt
        [Enable 1 (Some limits600),
         Enable 2 (Some \<lparr>MaxMemory = - 5, MaxStore = 4096, MaxMsgSets = - 1, MaxObservables = - 1\<rparr>),
         UpdateLimits 1 (Some \<lparr>MaxMemory = 1024, MaxStore = 0, MaxMsgSets = 0, MaxObservables = 0\<rparr>),
         Disable 2] engineServer \<noteq> Panic"
    using second by (auto simp: accountServer_reached [unfolded One_nat_def])
  from new runs C3_ledger_sums_positive_parts [OF new, of quietExt]
  show ?thesis by blast
qed

end
